theory Spec2Isabelle
  imports Complex_Main
begin

section \<open>Python values shared by the embedding\<close>

text \<open>
  The module \<^verbatim>\<open>a_unet/blocks.py\<close> is embedded function by function. A Python exception
  is a value of \<open>py_error\<close>; a function that may raise returns \<open>py_error + 'a\<close>, with
  \<open>Inl\<close> for the exception.
\<close>

datatype py_error = AssertionError | AttributeError | IndexError | NameError | RuntimeError

section \<open>Primitive blocks: \<^verbatim>\<open>Conv\<close>, \<^verbatim>\<open>ConvTranspose\<close>, \<^verbatim>\<open>Downsample\<close>, \<^verbatim>\<open>Upsample\<close>\<close>

text \<open>
  Python list indexing \<^verbatim>\<open>xs[i]\<close>: a negative index counts from the end, an index out of
  range raises \<^verbatim>\<open>IndexError\<close>.
\<close>

definition py_index :: "'a list \<Rightarrow> int \<Rightarrow> py_error + 'a" where
  "py_index xs i =
     (if 0 \<le> i \<and> i < int (length xs) then Inr (xs ! nat i)
      else if i < 0 \<and> - int (length xs) \<le> i then Inr (xs ! nat (int (length xs) + i))
      else Inl IndexError)"

text \<open>
  The six constructors of the array engine that \<^verbatim>\<open>Conv\<close> and \<^verbatim>\<open>ConvTranspose\<close> select
  from, and the keyword arguments \<^verbatim>\<open>Downsample\<close> and \<^verbatim>\<open>Upsample\<close> compute for them. The
  remaining keyword arguments (\<^verbatim>\<open>**kwargs\<close>) are passed through untouched and are carried
  as \<open>extra\<close>.
\<close>

datatype conv_class =
  Conv1d | Conv2d | Conv3d | ConvTranspose1d | ConvTranspose2d | ConvTranspose3d

record 'k conv_module =
  conv_cls :: conv_class
  kernel_size :: int
  stride :: int
  padding :: int
  extra :: 'k

definition Conv :: "int \<Rightarrow> int \<Rightarrow> int \<Rightarrow> int \<Rightarrow> 'k \<Rightarrow> py_error + 'k conv_module" where
  "Conv ndim ks st pd kw =
     (case py_index [Conv1d, Conv2d, Conv3d] (ndim - 1) of
        Inl e \<Rightarrow> Inl e
      | Inr c \<Rightarrow> Inr \<lparr>conv_cls = c, kernel_size = ks, stride = st, padding = pd, extra = kw\<rparr>)"

definition ConvTranspose :: "int \<Rightarrow> int \<Rightarrow> int \<Rightarrow> int \<Rightarrow> 'k \<Rightarrow> py_error + 'k conv_module" where
  "ConvTranspose ndim ks st pd kw =
     (case py_index [ConvTranspose1d, ConvTranspose2d, ConvTranspose3d] (ndim - 1) of
        Inl e \<Rightarrow> Inl e
      | Inr c \<Rightarrow> Inr \<lparr>conv_cls = c, kernel_size = ks, stride = st, padding = pd, extra = kw\<rparr>)"

text \<open>
  \<^verbatim>\<open>Downsample(dim, factor=2, width=1, conv_t=Conv, **kwargs)\<close> and
  \<^verbatim>\<open>Upsample(dim, factor=2, width=1, conv_t=Conv, conv_tranpose_t=ConvTranspose, **kwargs)\<close>.
  Python's \<^verbatim>\<open>//\<close> is floor division, which is \<open>div\<close> on \<open>int\<close>. The parameter
  \<^verbatim>\<open>dim\<close> is written \<open>ndim\<close>.
\<close>

definition Downsample_with ::
  "(int \<Rightarrow> int \<Rightarrow> int \<Rightarrow> int \<Rightarrow> 'k \<Rightarrow> py_error + 'k conv_module) \<Rightarrow>
   int \<Rightarrow> int \<Rightarrow> int \<Rightarrow> 'k \<Rightarrow> py_error + 'k conv_module" where
  "Downsample_with conv_t ndim factor width kw =
     (let width = (if factor > 1 then width else 1)
      in conv_t ndim (factor * width) factor ((factor * width - factor) div 2) kw)"

definition Downsample :: "int \<Rightarrow> int \<Rightarrow> int \<Rightarrow> 'k \<Rightarrow> py_error + 'k conv_module" where
  "Downsample = Downsample_with Conv"

definition Upsample_with ::
  "(int \<Rightarrow> int \<Rightarrow> int \<Rightarrow> int \<Rightarrow> 'k \<Rightarrow> py_error + 'k conv_module) \<Rightarrow>
   int \<Rightarrow> int \<Rightarrow> int \<Rightarrow> 'k \<Rightarrow> py_error + 'k conv_module" where
  "Upsample_with conv_tranpose_t ndim factor width kw =
     (let width = (if factor > 1 then width else 1)
      in conv_tranpose_t ndim (factor * width) factor ((factor * width - factor) div 2) kw)"

definition Upsample :: "int \<Rightarrow> int \<Rightarrow> int \<Rightarrow> 'k \<Rightarrow> py_error + 'k conv_module" where
  "Upsample = Upsample_with ConvTranspose"

text \<open>The width the source uses after \<^verbatim>\<open>width = width if factor > 1 else 1\<close>,
  in the words of the specification: forced to 1 when the factor is 1.\<close>

definition forced_width :: "int \<Rightarrow> int \<Rightarrow> int" where
  "forced_width factor width = (if factor = 1 then 1 else width)"

section \<open>Helper functions: the template \<^verbatim>\<open>T\<close>\<close>

text \<open>
  A Python \<^verbatim>\<open>dict\<close> keeps its keys in insertion order, so keyword arguments are an
  association list with distinct keys. \<open>dict_set\<close> is \<^verbatim>\<open>d[k] = v\<close>: an existing key keeps
  its position and takes the new value, a new key goes to the end. \<open>dict_update\<close> is
  \<^verbatim>\<open>d.update(e)\<close>, and the dict display \<^verbatim>\<open>{**ka, **kb}\<close> updates a new dict with
  \<^verbatim>\<open>ka\<close>, then with \<^verbatim>\<open>kb\<close>.
\<close>

type_synonym 'v kwargs = "(string \<times> 'v) list"

fun dict_set :: "'v kwargs \<Rightarrow> string \<Rightarrow> 'v \<Rightarrow> 'v kwargs" where
  "dict_set [] k v = [(k, v)]"
| "dict_set ((k', v') # d) k v =
     (if k' = k then (k', v) # d else (k', v') # dict_set d k v)"

fun dict_update :: "'v kwargs \<Rightarrow> 'v kwargs \<Rightarrow> 'v kwargs" where
  "dict_update d [] = d"
| "dict_update d ((k, v) # e) = dict_update (dict_set d k v) e"

definition dict_display :: "'v kwargs \<Rightarrow> 'v kwargs \<Rightarrow> 'v kwargs" where
  "dict_display ka kb = dict_update (dict_update [] ka) kb"

text \<open>
  \<^verbatim>\<open>class T\<close>: \<^verbatim>\<open>__init__(self, t, override=True)\<close> stores the callable and the mode.
  \<^verbatim>\<open>T.__call__(*a, **ka)\<close> returns an \<^verbatim>\<open>Inner\<close> object, whose \<^verbatim>\<open>__call__\<close> closes over
  \<^verbatim>\<open>t\<close>, \<^verbatim>\<open>override\<close>, \<^verbatim>\<open>a\<close> and \<^verbatim>\<open>ka\<close>; these four are the \<open>closure_\<close> fields.
  \<^verbatim>\<open>Inner.__init__\<close> sets the attribute \<^verbatim>\<open>args\<close> and then updates the instance dictionary
  with \<^verbatim>\<open>ka\<close>, so a captured keyword named \<^verbatim>\<open>args\<close> replaces that attribute: the
  instance dictionary holds either the positional tuple or a keyword value under each
  name.
\<close>

record ('a, 'v, 'r) T =
  t :: "'a list \<Rightarrow> 'v kwargs \<Rightarrow> 'r"
  override :: bool

definition T_init :: "('a list \<Rightarrow> 'v kwargs \<Rightarrow> 'r) \<Rightarrow> ('a, 'v, 'r) T" where
  "T_init f = \<lparr>t = f, override = True\<rparr>"

datatype ('a, 'v) attr = Positional "'a list" | Keyword 'v

record ('a, 'v, 'r) Inner =
  closure_t :: "'a list \<Rightarrow> 'v kwargs \<Rightarrow> 'r"
  closure_override :: bool
  closure_a :: "'a list"
  closure_ka :: "'v kwargs"
  instance_dict :: "('a, 'v) attr kwargs"

definition T_call :: "('a, 'v, 'r) T \<Rightarrow> 'a list \<Rightarrow> 'v kwargs \<Rightarrow> ('a, 'v, 'r) Inner" where
  "T_call self a ka =
     \<lparr>closure_t = t self, closure_override = override self,
      closure_a = a, closure_ka = ka,
      instance_dict =
        dict_update [(''args'', Positional a)] (map (\<lambda>(k, v). (k, Keyword v)) ka)\<rparr>"

definition Inner_call :: "('a, 'v, 'r) Inner \<Rightarrow> 'a list \<Rightarrow> 'v kwargs \<Rightarrow> 'r" where
  "Inner_call self b kb =
     (if closure_override self
      then closure_t self (closure_a self @ b) (dict_display (closure_ka self) kb)
      else closure_t self (b @ closure_a self) (dict_display kb (closure_ka self)))"

text \<open>Looking a keyword up, and what it means for a list to be a dict: no key twice.\<close>

definition dict_get :: "'v kwargs \<Rightarrow> string \<Rightarrow> 'v option" where
  "dict_get d k = map_of d k"

definition is_dict :: "'v kwargs \<Rightarrow> bool" where
  "is_dict d = distinct (map fst d)"

text \<open>A callable that records the arguments it receives, for concrete runs.\<close>

definition record_call :: "nat list \<Rightarrow> nat kwargs \<Rightarrow> nat list \<times> nat kwargs" where
  "record_call a ka = (a, ka)"

section \<open>Block combinators: \<^verbatim>\<open>Sequential\<close>, \<^verbatim>\<open>Skip\<close>\<close>

text \<open>
  A block is called with the primary signal and the auxiliary positional arguments and
  either returns the new signal or raises. \<^verbatim>\<open>Sequential.forward(x, *args)\<close> is the loop
  \<^verbatim>\<open>for block in self.blocks: x = block(x, *args)\<close>. The loop is embedded with a log of
  the calls it makes: each entry is the pair of arguments one child was called with.
  An exception of a child ends the loop, as it does in the source.
\<close>

type_synonym ('x, 'a) block = "'x \<Rightarrow> 'a list \<Rightarrow> py_error + 'x"

fun Sequential_run ::
  "('x, 'a) block list \<Rightarrow> 'x \<Rightarrow> 'a list \<Rightarrow> ('x \<times> 'a list) list \<times> (py_error + 'x)" where
  "Sequential_run [] x args = ([], Inr x)"
| "Sequential_run (block # blocks) x args =
     (case block x args of
        Inl e \<Rightarrow> ([(x, args)], Inl e)
      | Inr x' \<Rightarrow>
          (case Sequential_run blocks x' args of
             (calls, r) \<Rightarrow> ((x, args) # calls, r)))"

definition Sequential_forward :: "('x, 'a) block list \<Rightarrow> 'x \<Rightarrow> 'a list \<Rightarrow> py_error + 'x" where
  "Sequential_forward blocks x args = snd (Sequential_run blocks x args)"

definition Sequential_calls :: "('x, 'a) block list \<Rightarrow> 'x \<Rightarrow> 'a list \<Rightarrow> ('x \<times> 'a list) list" where
  "Sequential_calls blocks x args = fst (Sequential_run blocks x args)"

text \<open>
  The contract in the words of the specification: the nested call
  \<^verbatim>\<open>childN(...(child1(x, *aux), *aux)..., *aux)\<close>. The outermost call is the last child, so the
  recursion runs over the children from the last to the first; an inner call that raises
  makes the whole expression raise.
\<close>

fun nested_call :: "('x, 'a) block list \<Rightarrow> 'x \<Rightarrow> 'a list \<Rightarrow> py_error + 'x" where
  "nested_call [] x aux = Inr x"
| "nested_call (outer # inner) x aux =
     (case nested_call inner x aux of Inl e \<Rightarrow> Inl e | Inr y \<Rightarrow> outer y aux)"

definition Sequential_spec :: "('x, 'a) block list \<Rightarrow> 'x \<Rightarrow> 'a list \<Rightarrow> py_error + 'x" where
  "Sequential_spec children x aux = nested_call (rev children) x aux"

text \<open>
  \<^verbatim>\<open>Skip(merge_fn)\<close> returns a subclass of \<^verbatim>\<open>Sequential\<close> whose forward is
  \<^verbatim>\<open>merge_fn(x, super().forward(x, *args))\<close>. The argument is evaluated first, so an exception
  of the chain is raised before \<^verbatim>\<open>merge_fn\<close> is called.
\<close>

definition Skip_forward ::
  "('x \<Rightarrow> 'x \<Rightarrow> py_error + 'x) \<Rightarrow> ('x, 'a) block list \<Rightarrow> 'x \<Rightarrow> 'a list \<Rightarrow> py_error + 'x" where
  "Skip_forward merge_fn blocks x args =
     (case Sequential_forward blocks x args of
        Inl e \<Rightarrow> Inl e
      | Inr y \<Rightarrow> merge_fn x y)"

text \<open>
  The default merge \<^verbatim>\<open>torch.add\<close>. A signal is the list of its entries; adding two
  signals of one shape adds them entry by entry, and the array engine raises on shapes
  that do not agree. Floating-point entries are embedded as the real numbers they denote.
\<close>

definition torch_add :: "real list \<Rightarrow> real list \<Rightarrow> py_error + real list" where
  "torch_add x y =
     (if length x = length y then Inr (map2 (+) x y) else Inl RuntimeError)"

definition zeros_like :: "real list \<Rightarrow> real list" where
  "zeros_like x = replicate (length x) 0"

text \<open>Three children for concrete runs, on integer signals with integer auxiliary arguments.\<close>

definition add_aux :: "(int, int) block" where
  "add_aux x args = Inr (x + sum_list args)"

definition double :: "(int, int) block" where
  "double x args = Inr (2 * x)"

definition need_aux :: "(int, int) block" where
  "need_aux x args = (if args = [] then Inl AssertionError else Inr (x - 1))"

text \<open>A child with all weights zero, on signals of real entries.\<close>

definition zero_weights :: "(real list, int) block" where
  "zero_weights x args = Inr (map ((*) 0) x)"

section \<open>Building modules: \<^verbatim>\<open>Ts\<close> and \<^verbatim>\<open>Repeat\<close>\<close>



























section \<open>Embedders: \<^verbatim>\<open>FixedEmbedding\<close>\<close>

text \<open>
  \<^verbatim>\<open>nn.Embedding(num_embeddings, embedding_dim)\<close> is a lookup table with one row per index:
  \<open>weight self i\<close> is row \<open>i\<close> of the weight matrix, a vector of \<open>embedding_dim\<close>
  entries. An index outside the table raises.
\<close>

record 'v Embedding =
  num_embeddings :: int
  embedding_dim :: int
  weight :: "nat \<Rightarrow> 'v"

definition Embedding_lookup :: "'v Embedding \<Rightarrow> int \<Rightarrow> py_error + 'v" where
  "Embedding_lookup self i =
     (if 0 \<le> i \<and> i < num_embeddings self then Inr (weight self (nat i)) else Inl IndexError)"

fun Embedding_forward :: "'v Embedding \<Rightarrow> int list \<Rightarrow> py_error + 'v list" where
  "Embedding_forward self [] = Inr []"
| "Embedding_forward self (i # idx) =
     (case Embedding_lookup self i of
        Inl e \<Rightarrow> Inl e
      | Inr v \<Rightarrow>
          (case Embedding_forward self idx of Inl e \<Rightarrow> Inl e | Inr vs \<Rightarrow> Inr (v # vs)))"

text \<open>
  A tensor of shape \<open>(b, n, d)\<close> is the list of its \<open>b\<close> batch items, each the list
  of its \<open>n\<close> feature vectors, together with \<open>n\<close> (which a tensor has also when
  \<open>b = 0\<close>). The feature vector is left abstract.

  \<^verbatim>\<open>FixedEmbedding(max_length, features)\<close> owns an embedding table of \<^verbatim>\<open>max_length\<close>
  rows; its forward asserts that the sequence is not longer than \<^verbatim>\<open>max_length\<close>, looks
  up the positions \<open>0..<n\<close> and repeats the result for every batch item.
\<close>

record 'v tensor3 =
  seq_len :: nat
  batch :: "'v list list"

definition FixedEmbedding_forward ::
  "nat \<Rightarrow> 'v Embedding \<Rightarrow> 'v tensor3 \<Rightarrow> py_error + 'v tensor3" where
  "FixedEmbedding_forward max_length embedding x =
     (let batch_size = length (batch x); len = seq_len x
      in if len \<le> max_length
         then (case Embedding_forward embedding (map int [0..<len]) of
                 Inl e \<Rightarrow> Inl e
               | Inr fixed_embedding \<Rightarrow>
                   Inr \<lparr>seq_len = len, batch = replicate batch_size fixed_embedding\<rparr>)
         else Inl AssertionError)"

section \<open>Plugins: \<^verbatim>\<open>rand_bool\<close> and \<^verbatim>\<open>ClassifierFreeGuidancePlugin\<close>\<close>

text \<open>
  \<^verbatim>\<open>rand_bool(shape, proba)\<close> for the shape \<open>(b, 1, 1)\<close>: one boolean per batch item.
  The Bernoulli draw of the array engine is the parameter \<open>bernoulli\<close>. Probabilities
  and the guidance scale are Python floats, embedded as the real numbers they denote.
\<close>

definition rand_bool :: "(nat \<Rightarrow> real \<Rightarrow> bool list) \<Rightarrow> nat \<Rightarrow> real \<Rightarrow> bool list" where
  "rand_bool bernoulli b proba =
     (if proba = 1 then replicate b True
      else if proba = 0 then replicate b False
      else bernoulli b proba)"

text \<open>
  \<^verbatim>\<open>torch.where(batch_mask, embedding_mask, embedding)\<close> with a mask of shape \<open>(b, 1, 1)\<close>
  chooses, per batch item, the whole item of the first or of the second tensor.
\<close>

definition torch_where :: "bool list \<Rightarrow> 'v tensor3 \<Rightarrow> 'v tensor3 \<Rightarrow> 'v tensor3" where
  "torch_where batch_mask p q =
     \<lparr>seq_len = seq_len q,
      batch = map (\<lambda>(m, r, s). if m then r else s) (zip batch_mask (zip (batch p) (batch q)))\<rparr>"

text \<open>
  \<^verbatim>\<open>ClassifierFreeGuidancePlugin(net_t, embedding_max_length)\<close> returns the constructor
  \<^verbatim>\<open>Net(embedding_features, **kwargs)\<close>, which builds the fixed embedding and the base
  network and returns the module of the two with the forward below. The base network is
  any callable of the signal, the embedding and the remaining keywords that returns an
  output or raises; the initial weights of the embedding table come from the array
  engine and are the parameter \<open>init_weight\<close>.
\<close>

record ('x, 'v, 'kw, 'o) CFG_module =
  fixed_max_length :: nat
  fixed_embedding :: "'v Embedding"
  net :: "'x \<Rightarrow> 'v tensor3 \<Rightarrow> 'kw \<Rightarrow> py_error + 'o"

definition ClassifierFreeGuidancePlugin ::
  "(int \<Rightarrow> 'ckw \<Rightarrow> 'x \<Rightarrow> 'v tensor3 \<Rightarrow> 'kw \<Rightarrow> py_error + 'o) \<Rightarrow> nat \<Rightarrow>
   (nat \<Rightarrow> int \<Rightarrow> nat \<Rightarrow> 'v) \<Rightarrow>
   int \<Rightarrow> 'ckw \<Rightarrow> ('x, 'v, 'kw, 'o) CFG_module" where
  "ClassifierFreeGuidancePlugin net_t embedding_max_length init_weight embedding_features kwargs =
     \<lparr>fixed_max_length = embedding_max_length,
      fixed_embedding =
        \<lparr>num_embeddings = int embedding_max_length,
         embedding_dim = embedding_features,
         weight = init_weight embedding_max_length embedding_features\<rparr>,
      net = net_t embedding_features kwargs\<rparr>"

text \<open>
  The forward of the module. It returns the list of the embeddings the base network was
  called with, in order, and the outcome. The arithmetic of the array engine on outputs
  is addition and subtraction of the output type and the parameter \<open>scaled\<close> for the
  product of an output with the scale.
\<close>

definition CFG_forward ::
  "('x, 'v, 'kw, 'o::{plus,minus}) CFG_module \<Rightarrow> ('o \<Rightarrow> real \<Rightarrow> 'o) \<Rightarrow> (nat \<Rightarrow> real \<Rightarrow> bool list) \<Rightarrow>
   'x \<Rightarrow> 'v tensor3 option \<Rightarrow> real \<Rightarrow> real \<Rightarrow> 'kw \<Rightarrow> 'v tensor3 list \<times> (py_error + 'o)" where
  "CFG_forward self scaled bernoulli x embedding embedding_scale embedding_mask_proba kwargs =
     (case embedding of
        None \<Rightarrow> ([], Inl AssertionError)
      | Some embedding \<Rightarrow>
          (case FixedEmbedding_forward (fixed_max_length self) (fixed_embedding self) embedding of
             Inl e \<Rightarrow> ([], Inl e)
           | Inr embedding_mask \<Rightarrow>
               (let b = length (batch embedding);
                    embedding =
                      (if embedding_mask_proba > 0
                       then torch_where (rand_bool bernoulli b embedding_mask_proba)
                              embedding_mask embedding
                       else embedding)
                in if embedding_scale \<noteq> 1
                   then (case net self x embedding kwargs of
                           Inl e \<Rightarrow> ([embedding], Inl e)
                         | Inr out \<Rightarrow>
                             (case net self x embedding_mask kwargs of
                                Inl e \<Rightarrow> ([embedding, embedding_mask], Inl e)
                              | Inr out_masked \<Rightarrow>
                                  ([embedding, embedding_mask],
                                   Inr (out_masked + scaled (out - out_masked) embedding_scale))))
                   else ([embedding], net self x embedding kwargs))))"

text \<open>
  The embedding that reaches the base network as the conditional one: the given
  embedding, with the items the mask selects replaced by the fixed embedding.
\<close>

definition possibly_masked ::
  "(nat \<Rightarrow> real \<Rightarrow> bool list) \<Rightarrow> real \<Rightarrow> 'v tensor3 \<Rightarrow> 'v tensor3 \<Rightarrow> 'v tensor3" where
  "possibly_masked bernoulli proba embedding_mask embedding =
     (if proba > 0
      then torch_where (rand_bool bernoulli (length (batch embedding)) proba) embedding_mask embedding
      else embedding)"

text \<open>A base network, a table and a draw for concrete runs.\<close>

definition sum_net :: "int \<Rightarrow> unit \<Rightarrow> int \<Rightarrow> int tensor3 \<Rightarrow> unit \<Rightarrow> py_error + int" where
  "sum_net embedding_features kwargs x embedding kw = Inr (x + sum_list (concat (batch embedding)))"

definition table_weights :: "nat \<Rightarrow> int \<Rightarrow> nat \<Rightarrow> int" where
  "table_weights n features i = 100 + int i"

definition times_int :: "int \<Rightarrow> real \<Rightarrow> int" where
  "times_int out s = out * \<lfloor>s\<rfloor>"

definition first_only :: "nat \<Rightarrow> real \<Rightarrow> bool list" where
  "first_only b proba = map (\<lambda>i. i = 0) [0..<b]"

section \<open>Attention\<close>

text \<open>
  The helpers \<^verbatim>\<open>exists\<close> and \<^verbatim>\<open>default\<close> (written \<open>default_to\<close>), and the truth value
  Python gives an optional integer in \<^verbatim>\<open>not self.context_features\<close>: \<^verbatim>\<open>None\<close> and 0 are
  false.
\<close>

definition exists :: "'a option \<Rightarrow> bool" where
  "exists val = (val \<noteq> None)"

definition default_to :: "'a option \<Rightarrow> 'a \<Rightarrow> 'a" where
  "default_to val d = (case val of Some v \<Rightarrow> v | None \<Rightarrow> d)"

definition truthy :: "int option \<Rightarrow> bool" where
  "truthy val = (case val of Some n \<Rightarrow> n \<noteq> 0 | None \<Rightarrow> False)"

text \<open>
  An \<^verbatim>\<open>Attention\<close> block with its attributes. The leaf modules (\<^verbatim>\<open>norm\<close>, written
  \<open>norm_x\<close>, \<^verbatim>\<open>norm_context\<close>, \<^verbatim>\<open>to_q\<close>, \<^verbatim>\<open>to_kv\<close>, \<^verbatim>\<open>attention\<close>) belong to the array
  engine and are functions on tensors; the positional embedding may raise, as
  \<^verbatim>\<open>FixedEmbedding\<close> does, and is absent unless the block was built with one. The
  attribute \<^verbatim>\<open>max_length\<close> is written \<open>max_len\<close>.
\<close>

record 't Attention =
  context_features :: "int option"
  use_positional_embedding :: bool
  use_context :: bool
  max_len :: "nat option"
  positional_embedding :: "('t \<Rightarrow> py_error + 't) option"
  norm_x :: "'t \<Rightarrow> 't"
  norm_context :: "'t \<Rightarrow> 't"
  to_q :: "'t \<Rightarrow> 't"
  to_kv :: "'t \<Rightarrow> 't"
  attention :: "'t \<Rightarrow> 't \<Rightarrow> 't \<Rightarrow> 't"

text \<open>
  \<^verbatim>\<open>Attention.__init__\<close>. The constructors of the array engine, \<^verbatim>\<open>nn.LayerNorm\<close> and
  \<^verbatim>\<open>nn.Linear\<close>, are parameters; \<^verbatim>\<open>attention_base_t\<close> is called as
  \<^verbatim>\<open>attention_base_t(features, num_heads=num_heads, head_features=head_features)\<close>.
\<close>

definition Attention_init ::
  "(int \<Rightarrow> 't \<Rightarrow> 't) \<Rightarrow> (int \<Rightarrow> int \<Rightarrow> 't \<Rightarrow> 't) \<Rightarrow>
   int \<Rightarrow> int \<Rightarrow> int \<Rightarrow> int option \<Rightarrow> nat option \<Rightarrow>
   (int \<Rightarrow> int \<Rightarrow> int \<Rightarrow> 't \<Rightarrow> 't \<Rightarrow> 't \<Rightarrow> 't) \<Rightarrow>
   (nat \<Rightarrow> int \<Rightarrow> 't \<Rightarrow> py_error + 't) option \<Rightarrow> py_error + 't Attention" where
  "Attention_init LayerNorm Linear features head_features num_heads context_features'
      max_length attention_base_t positional_embedding_t =
     (let mid_features = head_features * num_heads;
          context_width = default_to context_features' features;
          built_without =
            \<lparr>context_features = context_features',
             use_positional_embedding = exists positional_embedding_t,
             use_context = exists context_features',
             max_len = max_length,
             positional_embedding = None,
             norm_x = LayerNorm features,
             norm_context = LayerNorm context_width,
             to_q = Linear features mid_features,
             to_kv = Linear context_width (mid_features * 2),
             attention = attention_base_t features num_heads head_features\<rparr>
      in case positional_embedding_t of
           None \<Rightarrow> Inr built_without
         | Some pe_t \<Rightarrow>
             (case max_length of
                None \<Rightarrow> Inl AssertionError
              | Some ml \<Rightarrow> Inr (built_without\<lparr>positional_embedding := Some (pe_t ml features)\<rparr>)))"

text \<open>
  \<^verbatim>\<open>Attention.forward(x, context=None)\<close>. \<^verbatim>\<open>torch.chunk(t, chunks=2, dim=-1)\<close> is the
  parameter \<open>chunk\<close>; the sum of two tensors is the addition of the tensor type. Reading
  the attribute \<^verbatim>\<open>positional_embedding\<close> of a block that has none raises
  \<^verbatim>\<open>AttributeError\<close>.
\<close>

definition Attention_forward ::
  "('t \<Rightarrow> 't \<times> 't) \<Rightarrow> ('t::plus) Attention \<Rightarrow> 't \<Rightarrow> 't option \<Rightarrow> py_error + 't" where
  "Attention_forward chunk self x context =
     (if truthy (context_features self) \<and> context = None then Inl AssertionError
      else
        (let skip = x
         in case (if use_positional_embedding self
                  then (case positional_embedding self of
                          None \<Rightarrow> Inl AttributeError
                        | Some pe \<Rightarrow> (case pe x of Inl e \<Rightarrow> Inl e | Inr p \<Rightarrow> Inr (x + p)))
                  else Inr x) of
              Inl e \<Rightarrow> Inl e
            | Inr x \<Rightarrow>
                (let context = (case context of
                                  Some c \<Rightarrow> if use_context self then c else x
                                | None \<Rightarrow> x);
                     x = norm_x self x;
                     context = norm_context self context;
                     q = to_q self x
                 in case chunk (to_kv self context) of
                      (k, v) \<Rightarrow> Inr (skip + attention self q k v))))"

text \<open>Leaf modules on integers for concrete runs.\<close>

definition layer_norm_fx :: "int \<Rightarrow> int \<Rightarrow> int" where
  "layer_norm_fx features x = x - features"

definition linear_fx :: "int \<Rightarrow> int \<Rightarrow> int \<Rightarrow> int" where
  "linear_fx in_features out_features x = out_features * x"

definition attention_fx :: "int \<Rightarrow> int \<Rightarrow> int \<Rightarrow> int \<Rightarrow> int \<Rightarrow> int \<Rightarrow> int" where
  "attention_fx features num_heads head_features q k v = q + k * v"

definition chunk_fx :: "int \<Rightarrow> int \<times> int" where
  "chunk_fx z = (z, z + 1)"

definition positional_fx :: "nat \<Rightarrow> int \<Rightarrow> int \<Rightarrow> py_error + int" where
  "positional_fx max_length features x =
     (if x \<le> int max_length then Inr 10 else Inl AssertionError)"

text \<open>
  The block \<^verbatim>\<open>Attention(4, head_features=2, num_heads=2, context_features=3)\<close> and the
  block \<^verbatim>\<open>Attention(4, head_features=2, num_heads=2, max_length=8,
  positional_embedding_t=positional_fx)\<close> over these leaf modules.
\<close>

definition cross_block :: "int Attention" where
  "cross_block =
     \<lparr>context_features = Some 3, use_positional_embedding = False, use_context = True,
      max_len = None, positional_embedding = None,
      norm_x = layer_norm_fx 4, norm_context = layer_norm_fx 3,
      to_q = linear_fx 4 4, to_kv = linear_fx 3 8, attention = attention_fx 4 2 2\<rparr>"

definition positional_block :: "int Attention" where
  "positional_block =
     \<lparr>context_features = None, use_positional_embedding = True, use_context = False,
      max_len = Some 8, positional_embedding = Some (positional_fx 8 4),
      norm_x = layer_norm_fx 4, norm_context = layer_norm_fx 4,
      to_q = linear_fx 4 4, to_kv = linear_fx 4 8, attention = attention_fx 4 2 2\<rparr>"

section \<open>The tabular embedding generator\<close>

text \<open>
  A tensor of rank 2 is the list of its rows together with its shape, which it has also
  when it has no row. Reading an entry or a column outside the shape raises. Entries are
  floating-point numbers, embedded as the real numbers they denote.
\<close>

record 'a tensor2 =
  n_rows :: nat
  n_cols :: nat
  cells :: "'a list list"

definition tensor2_get :: "'a tensor2 \<Rightarrow> nat \<Rightarrow> nat \<Rightarrow> py_error + 'a" where
  "tensor2_get m i j =
     (if i < n_rows m \<and> j < n_cols m then Inr (cells m ! i ! j) else Inl IndexError)"

definition column :: "'a tensor2 \<Rightarrow> nat \<Rightarrow> py_error + 'a list" where
  "column x j = (if j < n_cols x then Inr (map (\<lambda>r. r ! j) (cells x)) else Inl IndexError)"

definition well_shaped :: "'a tensor2 \<Rightarrow> bool" where
  "well_shaped m =
     (length (cells m) = n_rows m \<and> list_all (\<lambda>r. length r = n_cols m) (cells m))"

text \<open>
  Writing one row of a tensor: \<^verbatim>\<open>row[p] = v\<close> with Python's negative indices and its
  \<^verbatim>\<open>IndexError\<close>, and \<^verbatim>\<open>row[lo:hi] = v\<close>, whose bounds are clamped and which never raises.
\<close>

definition row_set :: "'a list \<Rightarrow> int \<Rightarrow> 'a \<Rightarrow> py_error + 'a list" where
  "row_set row p v =
     (if 0 \<le> p \<and> p < int (length row) then Inr (row[nat p := v])
      else if p < 0 \<and> - int (length row) \<le> p then Inr (row[nat (int (length row) + p) := v])
      else Inl IndexError)"

definition slice_bound :: "int \<Rightarrow> int \<Rightarrow> int" where
  "slice_bound n i = (if i < 0 then max 0 (n + i) else min n i)"

definition row_fill :: "'a list \<Rightarrow> int \<Rightarrow> int \<Rightarrow> 'a \<Rightarrow> 'a list" where
  "row_fill row lo hi v =
     map (\<lambda>(j, c). if slice_bound (int (length row)) lo \<le> int j \<and>
                       int j < slice_bound (int (length row)) hi then v else c)
         (zip [0 ..< length row] row)"

text \<open>
  The constructors of the array engine used by \<^verbatim>\<open>__init__\<close>: \<^verbatim>\<open>torch.nn.Embedding\<close>
  with its initial weights \<open>init_weight\<close>, \<^verbatim>\<open>torch.ones(n, dtype=torch.bool)\<close>, the index
  assignment \<^verbatim>\<open>continuous_idx[cat_idxs] = 0\<close> and \<^verbatim>\<open>torch.empty\<close>, whose entries are
  whatever the memory holds, the parameter \<open>uninit\<close>. A negative size raises.
\<close>

definition Embedding_init ::
  "(int \<Rightarrow> int \<Rightarrow> nat \<Rightarrow> 'v) \<Rightarrow> int \<Rightarrow> int \<Rightarrow> py_error + 'v Embedding" where
  "Embedding_init init_weight cat_dim emb_dim =
     (if cat_dim < 0 \<or> emb_dim < 0 then Inl RuntimeError
      else Inr \<lparr>num_embeddings = cat_dim, embedding_dim = emb_dim,
                weight = init_weight cat_dim emb_dim\<rparr>)"

fun Embedding_init_each ::
  "(int \<Rightarrow> int \<Rightarrow> nat \<Rightarrow> 'v) \<Rightarrow> (int \<times> int) list \<Rightarrow> py_error + 'v Embedding list" where
  "Embedding_init_each init_weight [] = Inr []"
| "Embedding_init_each init_weight ((cat_dim, emb_dim) # rest) =
     (case Embedding_init init_weight cat_dim emb_dim of
        Inl e \<Rightarrow> Inl e
      | Inr emb \<Rightarrow>
          (case Embedding_init_each init_weight rest of
             Inl e \<Rightarrow> Inl e
           | Inr embs \<Rightarrow> Inr (emb # embs)))"

definition torch_ones :: "int \<Rightarrow> py_error + bool list" where
  "torch_ones n = (if n < 0 then Inl RuntimeError else Inr (replicate (nat n) True))"

fun index_put_zero :: "bool list \<Rightarrow> int list \<Rightarrow> py_error + bool list" where
  "index_put_zero flags [] = Inr flags"
| "index_put_zero flags (i # idx) =
     (case row_set flags i False of
        Inl e \<Rightarrow> Inl e
      | Inr flags' \<Rightarrow> index_put_zero flags' idx)"

definition torch_empty :: "(nat \<Rightarrow> nat \<Rightarrow> 'a) \<Rightarrow> nat \<Rightarrow> int \<Rightarrow> py_error + 'a list list" where
  "torch_empty uninit n d =
     (if d < 0 then Inl RuntimeError
      else Inr (map (\<lambda>g. map (uninit g) [0 ..< nat d]) [0 ..< n]))"

text \<open>
  The inner loop of \<^verbatim>\<open>__init__\<close>, \<^verbatim>\<open>for init_feat_idx in range(input_dim)\<close>, for one
  group: it walks the flags of \<^verbatim>\<open>continuous_idx\<close> from \<open>init_feat_idx\<close> on and carries
  \<^verbatim>\<open>post_emb_idx\<close>, \<^verbatim>\<open>cat_feat_counter\<close> and the row being written.
\<close>

fun fill_group_row ::
  "real tensor2 \<Rightarrow> nat \<Rightarrow> int list \<Rightarrow> bool list \<Rightarrow> nat \<Rightarrow> int \<Rightarrow> int \<Rightarrow> real list \<Rightarrow>
   py_error + real list" where
  "fill_group_row group_matrix group_idx cat_emb_dims [] init_feat_idx post_emb_idx
     cat_feat_counter out = Inr out"
| "fill_group_row group_matrix group_idx cat_emb_dims (is_continuous # flags) init_feat_idx
     post_emb_idx cat_feat_counter out =
     (if is_continuous
      then (case tensor2_get group_matrix group_idx init_feat_idx of
              Inl e \<Rightarrow> Inl e
            | Inr w \<Rightarrow>
                (case row_set out post_emb_idx w of
                   Inl e \<Rightarrow> Inl e
                 | Inr out' \<Rightarrow>
                     fill_group_row group_matrix group_idx cat_emb_dims flags
                       (Suc init_feat_idx) (post_emb_idx + 1) cat_feat_counter out'))
      else (case py_index cat_emb_dims cat_feat_counter of
              Inl e \<Rightarrow> Inl e
            | Inr n_embeddings \<Rightarrow>
                (case tensor2_get group_matrix group_idx init_feat_idx of
                   Inl e \<Rightarrow> Inl e
                 | Inr w \<Rightarrow>
                     fill_group_row group_matrix group_idx cat_emb_dims flags
                       (Suc init_feat_idx) (post_emb_idx + n_embeddings) (cat_feat_counter + 1)
                       (row_fill out post_emb_idx (post_emb_idx + n_embeddings)
                          (w / real_of_int n_embeddings)))))"

text \<open>The outer loop, \<^verbatim>\<open>for group_idx in range(n_groups)\<close>, over the rows of the new matrix.\<close>

fun fill_groups ::
  "real tensor2 \<Rightarrow> int list \<Rightarrow> bool list \<Rightarrow> nat \<Rightarrow> real list list \<Rightarrow>
   py_error + real list list" where
  "fill_groups group_matrix cat_emb_dims flags group_idx [] = Inr []"
| "fill_groups group_matrix cat_emb_dims flags group_idx (out # outs) =
     (case fill_group_row group_matrix group_idx cat_emb_dims flags 0 0 0 out of
        Inl e \<Rightarrow> Inl e
      | Inr row \<Rightarrow>
          (case fill_groups group_matrix cat_emb_dims flags (Suc group_idx) outs of
             Inl e \<Rightarrow> Inl e
           | Inr below \<Rightarrow> Inr (row # below)))"

text \<open>
  The generator with its attributes. In the pass-through case \<^verbatim>\<open>__init__\<close> returns
  before \<^verbatim>\<open>embeddings\<close> and \<^verbatim>\<open>continuous_idx\<close> are set; they are empty here, and the
  forward does not read them in that case.
\<close>

record TabularDataEmbeddingGenerator =
  skip_embedding :: bool
  post_embed_dim :: int
  embedding_group_matrix :: "real tensor2"
  embeddings :: "real list Embedding list"
  continuous_idx :: "bool list"

text \<open>
  \<^verbatim>\<open>TabularDataEmbeddingGenerator.__init__\<close>. The statement after the pass-through case
  is \<^verbatim>\<open>self.post_embed_dim = int(input_dim + np.sum(cat_emb_dims) - len(cat_emb_dims))\<close>.
  It reads the global name \<^verbatim>\<open>np\<close>, so the constructor takes the binding of that name in
  the module: \<open>None\<close> when the module binds no such name, in which case evaluating the
  name raises \<^verbatim>\<open>NameError\<close>, and otherwise the function \<^verbatim>\<open>np.sum\<close> on lists of
  integers.
\<close>

definition TabularDataEmbeddingGenerator_init_in ::
  "(int list \<Rightarrow> int) option \<Rightarrow> (int \<Rightarrow> int \<Rightarrow> nat \<Rightarrow> real list) \<Rightarrow> (nat \<Rightarrow> nat \<Rightarrow> real) \<Rightarrow>
   int \<Rightarrow> int list \<Rightarrow> int list \<Rightarrow> int list \<Rightarrow> real tensor2 \<Rightarrow>
   py_error + TabularDataEmbeddingGenerator" where
  "TabularDataEmbeddingGenerator_init_in np init_weight uninit input_dim cat_dims cat_idxs
      cat_emb_dims group_matrix =
     (if cat_dims = [] \<and> cat_idxs = []
      then Inr \<lparr>skip_embedding = True, post_embed_dim = input_dim,
                embedding_group_matrix = group_matrix, embeddings = [], continuous_idx = []\<rparr>
      else
        (case np of
           None \<Rightarrow> Inl NameError
         | Some np_sum \<Rightarrow>
             (let post_embed_dim' = input_dim + np_sum cat_emb_dims - int (length cat_emb_dims)
              in case Embedding_init_each init_weight (zip cat_dims cat_emb_dims) of
                   Inl e \<Rightarrow> Inl e
                 | Inr embeddings' \<Rightarrow>
                     (case torch_ones input_dim of
                        Inl e \<Rightarrow> Inl e
                      | Inr ones \<Rightarrow>
                          (case index_put_zero ones cat_idxs of
                             Inl e \<Rightarrow> Inl e
                           | Inr continuous_idx' \<Rightarrow>
                               (let n_groups = n_rows group_matrix
                                in case torch_empty uninit n_groups post_embed_dim' of
                                     Inl e \<Rightarrow> Inl e
                                   | Inr blank \<Rightarrow>
                                       (case fill_groups group_matrix cat_emb_dims
                                               continuous_idx' 0 blank of
                                          Inl e \<Rightarrow> Inl e
                                        | Inr filled \<Rightarrow>
                                            Inr \<lparr>skip_embedding = False,
                                                 post_embed_dim = post_embed_dim',
                                                 embedding_group_matrix =
                                                   \<lparr>n_rows = n_groups,
                                                    n_cols = nat post_embed_dim',
                                                    cells = filled\<rparr>,
                                                 embeddings = embeddings',
                                                 continuous_idx = continuous_idx'\<rparr>)))))))"

text \<open>
  The imports of \<^verbatim>\<open>blocks.py\<close> are \<^verbatim>\<open>math.pi\<close>, names of \<^verbatim>\<open>typing\<close>, \<^verbatim>\<open>torch\<close>,
  \<^verbatim>\<open>torch.nn.functional\<close> as \<^verbatim>\<open>F\<close>, five functions of \<^verbatim>\<open>einops\<close>, \<^verbatim>\<open>Tensor\<close>, \<^verbatim>\<open>einsum\<close>
  and \<^verbatim>\<open>nn\<close> of \<^verbatim>\<open>torch\<close>, and \<^verbatim>\<open>TypeGuard\<close>; no statement of the module binds \<^verbatim>\<open>np\<close>.
  The constructor of the module as it is written is therefore the one with no binding.
\<close>

definition blocks_np :: "(int list \<Rightarrow> int) option" where
  "blocks_np = None"

definition TabularDataEmbeddingGenerator_init ::
  "(int \<Rightarrow> int \<Rightarrow> nat \<Rightarrow> real list) \<Rightarrow> (nat \<Rightarrow> nat \<Rightarrow> real) \<Rightarrow>
   int \<Rightarrow> int list \<Rightarrow> int list \<Rightarrow> int list \<Rightarrow> real tensor2 \<Rightarrow>
   py_error + TabularDataEmbeddingGenerator" where
  "TabularDataEmbeddingGenerator_init = TabularDataEmbeddingGenerator_init_in blocks_np"

text \<open>The module with \<^verbatim>\<open>import numpy as np\<close> added would bind the name to numpy.\<close>

definition numpy_sum :: "(int list \<Rightarrow> int) option" where
  "numpy_sum = Some sum_list"

text \<open>
  \<^verbatim>\<open>TabularDataEmbeddingGenerator.forward\<close>. The loop
  \<^verbatim>\<open>for feat_init_idx, is_continuous in enumerate(self.continuous_idx)\<close> carries
  \<^verbatim>\<open>cat_feat_counter\<close> and the list \<^verbatim>\<open>cols\<close>. A continuous column is appended as a tensor
  of one column (\<^verbatim>\<open>.view(-1, 1)\<close>), a categorical column as the tensor of the rows looked
  up, which has \<^verbatim>\<open>embedding_dim\<close> columns. \<^verbatim>\<open>.long()\<close> truncates towards zero;
  \<^verbatim>\<open>.float()\<close> changes nothing on reals. \<^verbatim>\<open>torch.cat(cols, dim=1)\<close> raises on an empty
  list and on tensors whose row counts differ, and otherwise joins the rows of the
  tensors, batch item by batch item; its width is the sum of the widths.
\<close>

definition long :: "real \<Rightarrow> int" where
  "long v = (if 0 \<le> v then \<lfloor>v\<rfloor> else \<lceil>v\<rceil>)"

fun forward_cols ::
  "real list Embedding list \<Rightarrow> real tensor2 \<Rightarrow> bool list \<Rightarrow> nat \<Rightarrow> nat \<Rightarrow> real tensor2 list \<Rightarrow>
   py_error + real tensor2 list" where
  "forward_cols embs x [] feat_init_idx cat_feat_counter cols = Inr cols"
| "forward_cols embs x (is_continuous # flags) feat_init_idx cat_feat_counter cols =
     (if is_continuous
      then (case column x feat_init_idx of
              Inl e \<Rightarrow> Inl e
            | Inr col \<Rightarrow>
                forward_cols embs x flags (Suc feat_init_idx) cat_feat_counter
                  (cols @ [\<lparr>n_rows = n_rows x, n_cols = 1, cells = map (\<lambda>v. [v]) col\<rparr>]))
      else (case py_index embs (int cat_feat_counter) of
              Inl e \<Rightarrow> Inl e
            | Inr emb \<Rightarrow>
                (case column x feat_init_idx of
                   Inl e \<Rightarrow> Inl e
                 | Inr col \<Rightarrow>
                     (case Embedding_forward emb (map long col) of
                        Inl e \<Rightarrow> Inl e
                      | Inr looked_up \<Rightarrow>
                          forward_cols embs x flags (Suc feat_init_idx) (Suc cat_feat_counter)
                            (cols @ [\<lparr>n_rows = n_rows x, n_cols = nat (embedding_dim emb),
                                      cells = looked_up\<rparr>])))))"

definition torch_cat :: "real tensor2 list \<Rightarrow> py_error + real tensor2" where
  "torch_cat cols =
     (case cols of
        [] \<Rightarrow> Inl RuntimeError
      | c # rest \<Rightarrow>
          if list_all (\<lambda>t. n_rows t = n_rows c) rest
          then Inr \<lparr>n_rows = n_rows c,
                    n_cols = sum_list (map n_cols cols),
                    cells = foldl (map2 (@)) (cells c) (map cells rest)\<rparr>
          else Inl RuntimeError)"

definition TabularDataEmbeddingGenerator_forward ::
  "TabularDataEmbeddingGenerator \<Rightarrow> real tensor2 \<Rightarrow> py_error + real tensor2" where
  "TabularDataEmbeddingGenerator_forward self x =
     (if skip_embedding self then Inr x
      else (case forward_cols (embeddings self) x (continuous_idx self) 0 0 [] of
              Inl e \<Rightarrow> Inl e
            | Inr cols \<Rightarrow> torch_cat cols))"

text \<open>
  The rebuilt row of the grouping matrix in the words of the specification: a continuous
  column copies its group weight into one output column, a categorical column divides
  its group weight evenly over the output columns it expands into, the widths being taken
  in the order of the categorical columns.
\<close>

fun expand_row :: "bool list \<Rightarrow> int list \<Rightarrow> real list \<Rightarrow> real list" where
  "expand_row (True # flags) widths (w # ws) = w # expand_row flags widths ws"
| "expand_row (False # flags) (n # widths) (w # ws) =
     replicate (nat n) (w / real_of_int n) @ expand_row flags widths ws"
| "expand_row flags widths ws = []"

text \<open>Initial weights, memory contents and tensors for concrete runs.\<close>

definition row_weights :: "int \<Rightarrow> int \<Rightarrow> nat \<Rightarrow> real list" where
  "row_weights cat_dim emb_dim i = replicate (nat emb_dim) (real i)"

definition stale :: "nat \<Rightarrow> nat \<Rightarrow> real" where
  "stale g j = 99"

definition groups3 :: "real tensor2" where
  "groups3 = \<lparr>n_rows = 1, n_cols = 3, cells = [[1, 6, 2]]\<rparr>"

definition two_columns :: "real tensor2" where
  "two_columns = \<lparr>n_rows = 1, n_cols = 2, cells = [[7, 8]]\<rparr>"

definition four_columns :: "real tensor2" where
  "four_columns = \<lparr>n_rows = 1, n_cols = 4, cells = [[7, 2, 8, 9]]\<rparr>"

text \<open>The pass-through generator over three raw columns.\<close>

definition pass3 :: TabularDataEmbeddingGenerator where
  "pass3 =
     \<lparr>skip_embedding = True, post_embed_dim = 3, embedding_group_matrix = groups3,
      embeddings = [], continuous_idx = []\<rparr>"

section \<open>Verification\<close>

subsection \<open>Downsample and Upsample\<close>

lemma py_index_in_range:
  "0 \<le> i \<Longrightarrow> nat i < length xs \<Longrightarrow> py_index xs i = Inr (xs ! nat i)"
  by (simp add: py_index_def)

text \<open>
  Claim C9. For every rank in \<open>{1, 2, 3}\<close> and every positive factor and width,
  \<^verbatim>\<open>Downsample\<close> builds the convolution of that rank and \<^verbatim>\<open>Upsample\<close> the transposed
  convolution of that rank, both with kernel size \<open>factor * width\<close>, stride \<open>factor\<close>
  and padding \<open>(factor * width - factor) div 2\<close>, where the width is forced to 1 when
  the factor is 1.
\<close>

theorem Downsample_Upsample_kernel_padding:
  assumes "ndim \<in> {1, 2, 3}" and "0 < factor" and "0 < width"
  shows "Downsample ndim factor width kw =
           Inr \<lparr>conv_cls = (if ndim = 1 then Conv1d else if ndim = 2 then Conv2d else Conv3d),
                kernel_size = factor * forced_width factor width,
                stride = factor,
                padding = (factor * forced_width factor width - factor) div 2,
                extra = kw\<rparr>
       \<and> Upsample ndim factor width kw =
           Inr \<lparr>conv_cls = (if ndim = 1 then ConvTranspose1d else if ndim = 2 then ConvTranspose2d
                            else ConvTranspose3d),
                kernel_size = factor * forced_width factor width,
                stride = factor,
                padding = (factor * forced_width factor width - factor) div 2,
                extra = kw\<rparr>"
proof -
  have w: "(if factor > 1 then width else 1) = forced_width factor width"
    using assms(2) by (simp add: forced_width_def)
  from assms(1) consider "ndim = 1" | "ndim = 2" | "ndim = 3" by auto
  then show ?thesis
  proof cases
    case 1
    then show ?thesis
      by (simp add: Downsample_def Upsample_def Downsample_with_def Upsample_with_def
          Conv_def ConvTranspose_def py_index_def w Let_def)
  next
    case 2
    then show ?thesis
      by (simp add: Downsample_def Upsample_def Downsample_with_def Upsample_with_def
          Conv_def ConvTranspose_def py_index_def w Let_def)
  next
    case 3
    then show ?thesis
      by (simp add: Downsample_def Upsample_def Downsample_with_def Upsample_with_def
          Conv_def ConvTranspose_def py_index_def w Let_def)
  qed
qed

text \<open>
  The two instances the specification names: factor 2 and width 1 give kernel 2 and
  padding 0; factor 2 and width 2 give kernel 4 and padding 1.
\<close>

theorem Downsample_Upsample_witness:
  "(2::int) \<in> {1, 2, 3} \<and> (0::int) < 2 \<and>
   Downsample 2 2 1 () =
     Inr \<lparr>conv_cls = Conv2d, kernel_size = 2, stride = 2, padding = 0, extra = ()\<rparr> \<and>
   Upsample 2 2 2 () =
     Inr \<lparr>conv_cls = ConvTranspose2d, kernel_size = 4, stride = 2, padding = 1, extra = ()\<rparr>"
  using Downsample_Upsample_kernel_padding [of 2 2 1 "()"]
    Downsample_Upsample_kernel_padding [of 2 2 2 "()"]
  by (simp add: forced_width_def)

subsection \<open>Dictionaries\<close>

lemma map_of_dict_set: "map_of (dict_set d k v) = (map_of d)(k \<mapsto> v)"
  by (induction d) (auto simp: fun_eq_iff)

lemma keys_dict_set:
  "map fst (dict_set d k v) = (if k \<in> set (map fst d) then map fst d else map fst d @ [k])"
  by (induction d) (fastforce simp: image_iff)+

lemma is_dict_dict_set: "is_dict d \<Longrightarrow> is_dict (dict_set d k v)"
  by (simp add: is_dict_def keys_dict_set)

lemma is_dict_dict_update: "is_dict d \<Longrightarrow> is_dict (dict_update d e)"
  by (induction d e rule: dict_update.induct) (simp_all add: is_dict_dict_set)

lemma dict_set_fresh: "k \<notin> fst ` set d \<Longrightarrow> dict_set d k v = d @ [(k, v)]"
  by (induction d) auto

lemma dict_update_fresh:
  "distinct (map fst e) \<Longrightarrow> fst ` set d \<inter> fst ` set e = {} \<Longrightarrow> dict_update d e = d @ e"
proof (induction d e rule: dict_update.induct)
  case (1 d)
  then show ?case by simp
next
  case (2 d k v e)
  have "k \<notin> fst ` set d" using "2.prems"(2) by auto
  then have s: "dict_set d k v = d @ [(k, v)]" by (rule dict_set_fresh)
  have "fst ` set (d @ [(k, v)]) \<inter> fst ` set e = {}"
    using "2.prems" by auto
  with 2 s show ?case by simp
qed

lemma dict_update_empty: "is_dict ka \<Longrightarrow> dict_update [] ka = ka"
  using dict_update_fresh [of ka "[]"] by (simp add: is_dict_def)

lemma map_of_dict_update:
  "distinct (map fst e) \<Longrightarrow> map_of (dict_update d e) = map_of d ++ map_of e"
proof (induction d e rule: dict_update.induct)
  case (1 d)
  then show ?case by simp
next
  case (2 d k v e)
  have "map_of (dict_update (dict_set d k v) e) = map_of (dict_set d k v) ++ map_of e"
    using 2 by simp
  also have "\<dots> = (map_of d)(k \<mapsto> v) ++ map_of e"
    by (simp only: map_of_dict_set)
  also have "\<dots> = map_of d ++ (map_of e)(k \<mapsto> v)"
  proof -
    have "map_of e k = None"
      using "2.prems" by (simp add: map_of_eq_None_iff)
    then show ?thesis
      by (auto simp: fun_eq_iff map_add_def split: option.splits)
  qed
  finally show ?case
    by (simp only: dict_update.simps map_of.simps fst_conv snd_conv)
qed

lemma dict_get_display:
  assumes "is_dict ka" and "is_dict kb"
  shows "dict_get (dict_display ka kb) k =
           (case dict_get kb k of Some v \<Rightarrow> Some v | None \<Rightarrow> dict_get ka k)"
proof -
  have "dict_display ka kb = dict_update ka kb"
    using assms(1) by (simp add: dict_display_def dict_update_empty)
  moreover have "map_of (dict_update ka kb) = map_of ka ++ map_of kb"
    using assms(2) by (simp add: is_dict_def map_of_dict_update)
  ultimately show ?thesis
    by (simp add: dict_get_def map_add_def split: option.splits)
qed

lemma is_dict_Nil: "is_dict []"
  by (simp add: is_dict_def)

lemma is_dict_display: "is_dict (dict_display ka kb)"
  by (simp add: dict_display_def is_dict_dict_update is_dict_Nil)

text \<open>
  Claim C1. For every callable \<open>f\<close>, argument lists \<open>a\<close>, \<open>b\<close> and keyword arguments
  \<open>ka\<close>, \<open>kb\<close>: a template in override mode (the default) calls
  \<open>f\<close> with the captured positional arguments before the extra ones and with the
  keywords \<^verbatim>\<open>{**ka, **kb}\<close>; a template in non-override mode calls \<open>f\<close> with the extra
  positional arguments first and with the keywords \<^verbatim>\<open>{**kb, **ka}\<close>. On dicts, the merged
  dict is a dict in which the second operand wins on a key collision.
\<close>

theorem T_call_merges_arguments:
  "Inner_call (T_call (T_init f) a ka) b kb = f (a @ b) (dict_display ka kb)
   \<and> Inner_call (T_call \<lparr>t = f, override = True\<rparr> a ka) b kb = f (a @ b) (dict_display ka kb)
   \<and> Inner_call (T_call \<lparr>t = f, override = False\<rparr> a ka) b kb = f (b @ a) (dict_display kb ka)
   \<and> (is_dict ka \<and> is_dict kb \<longrightarrow>
        is_dict (dict_display ka kb) \<and> is_dict (dict_display kb ka) \<and>
        (\<forall>k. dict_get (dict_display ka kb) k =
               (case dict_get kb k of Some v \<Rightarrow> Some v | None \<Rightarrow> dict_get ka k)) \<and>
        (\<forall>k. dict_get (dict_display kb ka) k =
               (case dict_get ka k of Some v \<Rightarrow> Some v | None \<Rightarrow> dict_get kb k)))"
  by (simp add: Inner_call_def T_call_def T_init_def is_dict_display dict_get_display)

text \<open>A run with the colliding keyword \<^verbatim>\<open>y\<close>, in both modes.\<close>

theorem T_call_witness:
  "is_dict [(''x'', 1::nat), (''y'', 2)] \<and> is_dict [(''y'', 3::nat), (''z'', 4)]
   \<and> Inner_call (T_call (T_init record_call) [1] [(''x'', 1), (''y'', 2)]) [2] [(''y'', 3), (''z'', 4)]
       = ([1, 2], [(''x'', 1), (''y'', 3), (''z'', 4)])
   \<and> Inner_call (T_call \<lparr>t = record_call, override = False\<rparr> [1] [(''x'', 1), (''y'', 2)])
         [2] [(''y'', 3), (''z'', 4)]
       = ([2, 1], [(''y'', 2), (''z'', 4), (''x'', 1)])
   \<and> dict_get (dict_display [(''x'', 1::nat), (''y'', 2)] [(''y'', 3), (''z'', 4)]) ''y'' = Some 3
   \<and> dict_get (dict_display [(''y'', 3), (''z'', 4)] [(''x'', 1::nat), (''y'', 2)]) ''y'' = Some 2"
  using T_call_merges_arguments [of record_call "[1]" "[(''x'', 1), (''y'', 2)]" "[2]"
      "[(''y'', 3), (''z'', 4)]"]
  by (simp add: is_dict_def dict_display_def record_call_def dict_get_def)

subsection \<open>Sequential\<close>

lemma nested_call_snoc:
  "nested_call (cs @ [c]) x aux =
     (case c x aux of Inl e \<Rightarrow> Inl e | Inr x' \<Rightarrow> nested_call cs x' aux)"
  by (induction cs) (auto split: sum.splits)

lemma Sequential_forward_Nil: "Sequential_forward [] x args = Inr x"
  by (simp add: Sequential_forward_def)

lemma Sequential_forward_Cons:
  "Sequential_forward (c # cs) x args =
     (case c x args of Inl e \<Rightarrow> Inl e | Inr x' \<Rightarrow> Sequential_forward cs x' args)"
  by (simp add: Sequential_forward_def split: sum.splits prod.splits)

lemma Sequential_forward_nested:
  "Sequential_forward cs x args = Sequential_spec cs x args"
  by (induction cs arbitrary: x)
     (auto simp: Sequential_forward_Nil Sequential_forward_Cons Sequential_spec_def
        nested_call_snoc split: sum.splits)

lemma Sequential_run_args:
  "Sequential_run cs x args = (calls, r) \<Longrightarrow> map snd calls = replicate (length calls) args"
  by (induction cs arbitrary: x calls r) (auto split: sum.splits prod.splits)

lemma Sequential_run_length:
  "Sequential_run cs x args = (calls, r) \<Longrightarrow> length calls \<le> length cs"
  by (induction cs arbitrary: x calls r) (auto split: sum.splits prod.splits)

lemma Sequential_calls_args:
  "map snd (Sequential_calls cs x args) = replicate (length (Sequential_calls cs x args)) args"
  using Sequential_run_args [of cs x args "fst (Sequential_run cs x args)" "snd (Sequential_run cs x args)"]
  by (simp add: Sequential_calls_def)

lemma Sequential_calls_length:
  "length (Sequential_calls cs x args) \<le> length cs"
  using Sequential_run_length [of cs x args "fst (Sequential_run cs x args)" "snd (Sequential_run cs x args)"]
  by (simp add: Sequential_calls_def)

lemma Sequential_run_returns:
  "Sequential_run cs x args = (calls, Inr y) \<Longrightarrow> length calls = length cs"
  by (induction cs arbitrary: x calls) (auto split: sum.splits prod.splits)

lemma Sequential_calls_all:
  "Sequential_forward cs x args = Inr y \<Longrightarrow> length (Sequential_calls cs x args) = length cs"
  using Sequential_run_returns [of cs x args "fst (Sequential_run cs x args)" y]
  by (simp add: Sequential_calls_def Sequential_forward_def prod_eq_iff)

text \<open>
  Claim C4. For every list of children, every primary input and every tuple of auxiliary
  arguments, the forward of \<^verbatim>\<open>Sequential\<close> is the nested call
  \<^verbatim>\<open>cN(...(c2(c1(x, *aux), *aux)..., *aux)\<close>, and every child that is called receives the
  same, unmodified auxiliary tuple; when the forward returns, every child has been called.
\<close>

theorem Sequential_forward_contract:
  "Sequential_forward children x aux = Sequential_spec children x aux
   \<and> map snd (Sequential_calls children x aux)
       = replicate (length (Sequential_calls children x aux)) aux
   \<and> length (Sequential_calls children x aux) \<le> length children
   \<and> (\<forall>y. Sequential_forward children x aux = Inr y \<longrightarrow>
            length (Sequential_calls children x aux) = length children)"
  by (simp add: Sequential_forward_nested Sequential_calls_args Sequential_calls_length
      Sequential_calls_all)

text \<open>A chain of three children that records the arguments each child received.\<close>

theorem Sequential_forward_witness:
  "Sequential_forward [add_aux, double, need_aux] 1 [2, 3] = Inr 11
   \<and> Sequential_spec [add_aux, double, need_aux] 1 [2, 3] = Inr 11
   \<and> Sequential_calls [add_aux, double, need_aux] 1 [2, 3] = [(1, [2, 3]), (6, [2, 3]), (12, [2, 3])]
   \<and> length (Sequential_calls [add_aux, double, need_aux] 1 [2, 3]) = length [add_aux, double, need_aux]"
  using Sequential_forward_contract [of "[add_aux, double, need_aux]" 1 "[2, 3]"]
  by (simp add: Sequential_forward_def Sequential_calls_def Sequential_spec_def
      add_aux_def double_def need_aux_def)

subsection \<open>Skip\<close>

lemma map2_add_zeros: "map2 (+) x (replicate (length x) (0::real)) = x"
  by (induction x) auto

text \<open>
  Claim C5. For every merge function, chain, input and auxiliary tuple, the forward of
  \<^verbatim>\<open>Skip(merge_fn)\<close> is \<^verbatim>\<open>merge_fn(x, chain(x, *aux))\<close>, where the chain is the sequential
  application of the children; with \<^verbatim>\<open>torch.add\<close> as the merge and a chain whose output
  is all zeros, the output is \<open>x\<close>.
\<close>

theorem Skip_forward_merge:
  "Skip_forward merge_fn blocks x aux =
     (case Sequential_spec blocks x aux of Inl e \<Rightarrow> Inl e | Inr y \<Rightarrow> merge_fn x y)
   \<and> Skip_forward merge_fn blocks x aux =
     (case Sequential_forward blocks x aux of Inl e \<Rightarrow> Inl e | Inr y \<Rightarrow> merge_fn x y)
   \<and> (Sequential_forward blocks0 x0 aux0 = Inr (zeros_like x0) \<longrightarrow>
        Skip_forward torch_add blocks0 x0 aux0 = Inr x0)"
  by (simp add: Skip_forward_def Sequential_forward_nested torch_add_def zeros_like_def
      map2_add_zeros)

text \<open>A chain of one child with all weights zero, merged by addition.\<close>

theorem Skip_forward_witness:
  "Sequential_forward [zero_weights] [1, 2] [] = Inr (zeros_like [1, 2])
   \<and> Skip_forward torch_add [zero_weights] [1, 2] [] = Inr [1, 2]"
  using Skip_forward_merge [of torch_add "[zero_weights]" "[1, 2]" "[]" "[zero_weights]" "[1, 2]" "[]"]
  by (simp add: Sequential_forward_def Sequential_spec_def zero_weights_def zeros_like_def
      torch_add_def)

subsection \<open>Repeat\<close>































subsection \<open>Classifier-free guidance\<close>

lemma Embedding_forward_positions:
  "int n \<le> num_embeddings emb \<Longrightarrow>
   Embedding_forward emb (map int [m ..< n]) = Inr (map (weight emb) [m ..< n])"
proof (induction "n - m" arbitrary: m)
  case 0
  then show ?case by simp
next
  case (Suc k)
  then have "m < n" by simp
  then have u: "[m ..< n] = m # [Suc m ..< n]" by (simp add: upt_conv_Cons)
  have "Embedding_forward emb (map int [Suc m ..< n]) = Inr (map (weight emb) [Suc m ..< n])"
    using Suc by simp
  moreover have "Embedding_lookup emb (int m) = Inr (weight emb m)"
    using \<open>m < n\<close> Suc.prems by (simp add: Embedding_lookup_def)
  ultimately show ?case by (simp add: u)
qed

lemma FixedEmbedding_forward_ok:
  "seq_len x \<le> max_length \<Longrightarrow> int max_length \<le> num_embeddings emb \<Longrightarrow>
   FixedEmbedding_forward max_length emb x =
     Inr \<lparr>seq_len = seq_len x,
          batch = replicate (length (batch x)) (map (weight emb) [0 ..< seq_len x])\<rparr>"
  using Embedding_forward_positions [of "seq_len x" emb 0]
  by (simp add: FixedEmbedding_forward_def Let_def)

lemma FixedEmbedding_forward_too_long:
  "max_length < seq_len x \<Longrightarrow> FixedEmbedding_forward max_length emb x = Inl AssertionError"
  by (simp add: FixedEmbedding_forward_def Let_def)

lemma torch_where_all:
  "length (batch q) = b \<Longrightarrow>
   torch_where (replicate b True) \<lparr>seq_len = seq_len q, batch = replicate b r\<rparr> q
     = \<lparr>seq_len = seq_len q, batch = replicate b r\<rparr>"
proof -
  have "map (\<lambda>(m, r, s). if m then r else s) (zip (replicate (length ys) True) (zip (replicate (length ys) r) ys))
          = replicate (length ys) r" for ys :: "'a list list"
    by (induction ys) auto
  then show "length (batch q) = b \<Longrightarrow> ?thesis"
    by (auto simp: torch_where_def)
qed

text \<open>
  Claim C2, amended. For every module built by \<^verbatim>\<open>ClassifierFreeGuidancePlugin\<close> and every
  input with an embedding whose sequence length is at most \<^verbatim>\<open>embedding_max_length\<close>: with
  scale 1 the base network is called exactly once, with the possibly masked embedding,
  and its outcome is the outcome of the forward; with another scale it is called with
  the possibly masked embedding and then with the fixed embedding, and the output is
  \<^verbatim>\<open>out_masked + (out - out_masked) * embedding_scale\<close>; with mask probability 1 the
  possibly masked embedding is the fixed embedding. With a longer embedding, or with
  none, the forward raises \<^verbatim>\<open>AssertionError\<close> and the base network is not called.
\<close>

theorem CFG_forward_guidance:
  assumes self: "self = ClassifierFreeGuidancePlugin net_t L init_weight embedding_features ckw"
    and mask: "embedding_mask =
        \<lparr>seq_len = seq_len embedding,
         batch = replicate (length (batch embedding))
                   (map (weight (fixed_embedding self)) [0 ..< seq_len embedding])\<rparr>"
    and cond: "conditional = possibly_masked bernoulli proba embedding_mask embedding"
  shows "(seq_len embedding \<le> L \<longrightarrow>
            (scale = 1 \<longrightarrow>
               CFG_forward self scaled bernoulli x (Some embedding) scale proba kw
                 = ([conditional], net_t embedding_features ckw x conditional kw))
          \<and> (scale \<noteq> 1 \<longrightarrow>
               CFG_forward self scaled bernoulli x (Some embedding) scale proba kw
                 = (case net_t embedding_features ckw x conditional kw of
                      Inl e \<Rightarrow> ([conditional], Inl e)
                    | Inr out \<Rightarrow>
                        (case net_t embedding_features ckw x embedding_mask kw of
                           Inl e \<Rightarrow> ([conditional, embedding_mask], Inl e)
                         | Inr out_masked \<Rightarrow>
                             ([conditional, embedding_mask],
                              Inr (out_masked + scaled (out - out_masked) scale)))))
          \<and> (proba = 1 \<longrightarrow> conditional = embedding_mask))
       \<and> (L < seq_len embedding \<longrightarrow>
            CFG_forward self scaled bernoulli x (Some embedding) scale proba kw
              = ([], Inl AssertionError))
       \<and> CFG_forward self scaled bernoulli x None scale proba kw = ([], Inl AssertionError)"
proof -
  have n: "net self = net_t embedding_features ckw" and l: "fixed_max_length self = L"
    and e: "num_embeddings (fixed_embedding self) = int L"
    by (simp_all add: self ClassifierFreeGuidancePlugin_def)
  have none: "CFG_forward self scaled bernoulli x None scale proba kw = ([], Inl AssertionError)"
    by (simp add: CFG_forward_def)
  have long: "CFG_forward self scaled bernoulli x (Some embedding) scale proba kw
      = ([], Inl AssertionError)" if "L < seq_len embedding"
    using that by (simp add: CFG_forward_def l FixedEmbedding_forward_too_long)
  have all: "conditional = embedding_mask" if "proba = 1"
    using that torch_where_all [of embedding "length (batch embedding)"
        "map (weight (fixed_embedding self)) [0 ..< seq_len embedding]"]
    by (simp add: cond possibly_masked_def rand_bool_def mask)
  have ok: "FixedEmbedding_forward L (fixed_embedding self) embedding = Inr embedding_mask"
    if "seq_len embedding \<le> L"
    using that by (simp add: FixedEmbedding_forward_ok e mask)
  have one: "CFG_forward self scaled bernoulli x (Some embedding) scale proba kw
      = ([conditional], net_t embedding_features ckw x conditional kw)"
    if "seq_len embedding \<le> L" and "scale = 1"
    using that(2) ok [OF that(1)]
    by (simp add: CFG_forward_def l n cond possibly_masked_def Let_def)
  have two: "CFG_forward self scaled bernoulli x (Some embedding) scale proba kw
      = (case net_t embedding_features ckw x conditional kw of
           Inl e \<Rightarrow> ([conditional], Inl e)
         | Inr out \<Rightarrow>
             (case net_t embedding_features ckw x embedding_mask kw of
                Inl e \<Rightarrow> ([conditional, embedding_mask], Inl e)
              | Inr out_masked \<Rightarrow>
                  ([conditional, embedding_mask],
                   Inr (out_masked + scaled (out - out_masked) scale))))"
    if "seq_len embedding \<le> L" and "scale \<noteq> 1"
    using that(2) ok [OF that(1)]
    by (simp add: CFG_forward_def l n cond possibly_masked_def Let_def split: sum.splits)
  show ?thesis
    using none long all one two by blast
qed

text \<open>
  The claim as stated, for every input with an embedding, fails on an embedding of two
  positions under \<^verbatim>\<open>embedding_max_length = 1\<close>: the assertion of the fixed embedding
  raises, and the forward is no evaluation of the base network.
\<close>

theorem CFG_forward_counterexample:
  "CFG_forward (ClassifierFreeGuidancePlugin sum_net 1 table_weights 4 ()) times_int first_only
      0 (Some \<lparr>seq_len = 2, batch = [[5, 6]]\<rparr>) 1 0 () = ([], Inl AssertionError)
   \<and> snd (CFG_forward (ClassifierFreeGuidancePlugin sum_net 1 table_weights 4 ()) times_int
            first_only 0 (Some \<lparr>seq_len = 2, batch = [[5, 6]]\<rparr>) 1 0 ())
       \<noteq> sum_net 4 () 0 \<lparr>seq_len = 2, batch = [[5, 6]]\<rparr> ()"
  by (simp add: CFG_forward_def ClassifierFreeGuidancePlugin_def FixedEmbedding_forward_def
      sum_net_def)

text \<open>
  Runs with a table of three rows: scale 1 with the first batch item masked, scale 2
  without mask, and scale 1 with mask probability 1.
\<close>

theorem CFG_forward_witness:
  "(2::nat) \<le> 3
   \<and> CFG_forward (ClassifierFreeGuidancePlugin sum_net 3 table_weights 4 ()) times_int first_only
        0 (Some \<lparr>seq_len = 2, batch = [[5, 6], [7, 8]]\<rparr>) 1 (1 / 2) ()
       = ([\<lparr>seq_len = 2, batch = [[100, 101], [7, 8]]\<rparr>], Inr 216)
   \<and> CFG_forward (ClassifierFreeGuidancePlugin sum_net 3 table_weights 4 ()) times_int first_only
        0 (Some \<lparr>seq_len = 2, batch = [[5, 6], [7, 8]]\<rparr>) 2 0 ()
       = ([\<lparr>seq_len = 2, batch = [[5, 6], [7, 8]]\<rparr>,
           \<lparr>seq_len = 2, batch = [[100, 101], [100, 101]]\<rparr>], Inr (- 350))
   \<and> CFG_forward (ClassifierFreeGuidancePlugin sum_net 3 table_weights 4 ()) times_int first_only
        0 (Some \<lparr>seq_len = 2, batch = [[5, 6], [7, 8]]\<rparr>) 1 1 ()
       = ([\<lparr>seq_len = 2, batch = [[100, 101], [100, 101]]\<rparr>], Inr 402)"
  using CFG_forward_guidance [OF refl refl refl, where net_t = sum_net and L = 3
      and init_weight = table_weights and embedding_features = 4 and ckw = "()"
      and embedding = "\<lparr>seq_len = 2, batch = [[5, 6], [7, 8]]\<rparr>" and scale = 1
      and scaled = times_int and bernoulli = first_only and x = 0 and proba = "1 / 2" and kw = "()"]
    CFG_forward_guidance [OF refl refl refl, where net_t = sum_net and L = 3
      and init_weight = table_weights and embedding_features = 4 and ckw = "()"
      and embedding = "\<lparr>seq_len = 2, batch = [[5, 6], [7, 8]]\<rparr>" and scale = 2
      and scaled = times_int and bernoulli = first_only and x = 0 and proba = 0 and kw = "()"]
    CFG_forward_guidance [OF refl refl refl, where net_t = sum_net and L = 3
      and init_weight = table_weights and embedding_features = 4 and ckw = "()"
      and embedding = "\<lparr>seq_len = 2, batch = [[5, 6], [7, 8]]\<rparr>" and scale = 1
      and scaled = times_int and bernoulli = first_only and x = 0 and proba = 1 and kw = "()"]
  by (simp add: ClassifierFreeGuidancePlugin_def possibly_masked_def rand_bool_def
      torch_where_def first_only_def sum_net_def table_weights_def times_int_def
      eval_nat_numeral upt_rec)

subsection \<open>Attention\<close>

lemma Attention_init_positional:
  "Attention_init LayerNorm Linear features head_features num_heads cf ml attention_base_t pe_t
     = Inr self \<Longrightarrow>
   use_positional_embedding self = (positional_embedding self \<noteq> None)"
  by (auto simp: Attention_init_def Let_def exists_def split: option.splits)

text \<open>
  Claim C10, amended. For every \<^verbatim>\<open>Attention\<close> block and every input \<open>x\<close>: when a
  context is supplied or \<^verbatim>\<open>context_features\<close> is unset or 0, and the positional embedding,
  if the block uses one, accepts \<open>x\<close>, the forward output is \<open>x\<close> plus the output of
  the attention computation on the query of the normalised input and the key and value
  of the normalised context, the input and the default context being taken after the
  positional embedding is added while the residual \<open>x\<close> is taken before it. When
  \<^verbatim>\<open>context_features\<close> is set and not 0 and no context is supplied, the forward raises
  \<^verbatim>\<open>AssertionError\<close>; when the positional embedding raises, so does the forward.
\<close>

theorem Attention_forward_residual:
  "(truthy (context_features self) \<and> ctx = None \<longrightarrow>
      Attention_forward chunk self x ctx = Inl AssertionError)
   \<and> (\<not> (truthy (context_features self) \<and> ctx = None) \<and>
       \<not> use_positional_embedding self \<and>
       chunk (to_kv self (norm_context self
                (case ctx of Some c \<Rightarrow> if use_context self then c else x | None \<Rightarrow> x)))
         = (k, v) \<longrightarrow>
      Attention_forward chunk self x ctx
        = Inr (x + attention self (to_q self (norm_x self x)) k v))
   \<and> (\<not> (truthy (context_features self) \<and> ctx = None) \<and>
       use_positional_embedding self \<and> positional_embedding self = Some pe \<and> pe x = Inr p \<and>
       chunk (to_kv self (norm_context self
                (case ctx of Some c \<Rightarrow> if use_context self then c else x + p
                 | None \<Rightarrow> x + p)))
         = (k', v') \<longrightarrow>
      Attention_forward chunk self x ctx
        = Inr (x + attention self (to_q self (norm_x self (x + p))) k' v'))
   \<and> (\<not> (truthy (context_features self) \<and> ctx = None) \<and>
       use_positional_embedding self \<and> positional_embedding self = Some pe \<and> pe x = Inl e \<longrightarrow>
      Attention_forward chunk self x ctx = Inl e)"
  by (auto simp: Attention_forward_def Let_def split: option.splits)

text \<open>
  The claim as stated, with or without a context, fails on a block built with
  \<^verbatim>\<open>context_features=3\<close> that is called without a context: the forward raises.
\<close>

theorem Attention_forward_counterexample:
  "Attention_init layer_norm_fx linear_fx 4 2 2 (Some 3) None attention_fx None = Inr cross_block
   \<and> Attention_forward chunk_fx cross_block 5 None = Inl AssertionError"
  by (simp add: Attention_init_def Attention_forward_def cross_block_def exists_def
      default_to_def truthy_def)

text \<open>
  Runs of a block with a positional embedding, on an input it accepts and on one it
  rejects, and of the block with \<^verbatim>\<open>context_features=3\<close>, with and without a context.
\<close>

theorem Attention_forward_witness:
  "Attention_init layer_norm_fx linear_fx 4 2 2 None (Some 8) attention_fx (Some positional_fx)
     = Inr positional_block
   \<and> Attention_forward chunk_fx positional_block 5 None = Inr 7881
   \<and> Attention_forward chunk_fx positional_block 9 None = Inl AssertionError
   \<and> Attention_forward chunk_fx cross_block 5 (Some 6) = Inr 609
   \<and> Attention_forward chunk_fx cross_block 5 None = Inl AssertionError"
  using Attention_forward_residual [where self = positional_block and ctx = None
      and chunk = chunk_fx and x = 5 and pe = "positional_fx 8 4" and p = 10 and k' = 88 and v' = 89]
    Attention_forward_residual [where self = positional_block and ctx = None
      and chunk = chunk_fx and x = 9 and pe = "positional_fx 8 4" and e = AssertionError]
    Attention_forward_residual [where self = cross_block and ctx = "Some 6"
      and chunk = chunk_fx and x = 5 and k = 24 and v = 25]
    Attention_forward_residual [where self = cross_block and ctx = None
      and chunk = chunk_fx and x = 5]
  by (simp add: Attention_init_def positional_block_def cross_block_def exists_def
      default_to_def truthy_def positional_fx_def layer_norm_fx_def linear_fx_def
      attention_fx_def chunk_fx_def)

subsection \<open>The tabular embedding generator: pass-through and column count\<close>

text \<open>
  Claim C7. For every grouping matrix and input dimension, the generator constructed with
  \<^verbatim>\<open>cat_dims = []\<close> and \<^verbatim>\<open>cat_idxs = []\<close> has the supplied grouping matrix, unchanged, as
  its \<^verbatim>\<open>embedding_group_matrix\<close>, and its forward returns every input as it is.
\<close>

theorem Tabular_pass_through:
  "TabularDataEmbeddingGenerator_init init_weight uninit input_dim [] [] cat_emb_dims group_matrix
     = Inr \<lparr>skip_embedding = True, post_embed_dim = input_dim,
            embedding_group_matrix = group_matrix, embeddings = [], continuous_idx = []\<rparr>
   \<and> embedding_group_matrix
        \<lparr>skip_embedding = True, post_embed_dim = input_dim,
         embedding_group_matrix = group_matrix, embeddings = [], continuous_idx = []\<rparr>
       = group_matrix
   \<and> TabularDataEmbeddingGenerator_forward
        \<lparr>skip_embedding = True, post_embed_dim = input_dim,
         embedding_group_matrix = group_matrix, embeddings = [], continuous_idx = []\<rparr> x
       = Inr x"
  by (simp add: TabularDataEmbeddingGenerator_init_def TabularDataEmbeddingGenerator_init_in_def
      TabularDataEmbeddingGenerator_forward_def)

text \<open>
  Claim C8, amended. The forward does not compare the column count of its input with the
  raw column count. For every generator constructed without categorical columns, over
  \<open>input_dim\<close> raw columns, and every input whose column count differs from
  \<open>input_dim\<close>, the forward returns the input unchanged; it raises no error.
\<close>

theorem Tabular_forward_no_column_check:
  "TabularDataEmbeddingGenerator_init init_weight uninit input_dim [] [] cat_emb_dims group_matrix
     = Inr self \<and> int (n_cols x) \<noteq> input_dim \<longrightarrow>
   post_embed_dim self = input_dim
   \<and> TabularDataEmbeddingGenerator_forward self x = Inr x
   \<and> (\<forall>e. TabularDataEmbeddingGenerator_forward self x \<noteq> Inl e)"
  by (auto simp: TabularDataEmbeddingGenerator_init_def TabularDataEmbeddingGenerator_init_in_def
      TabularDataEmbeddingGenerator_forward_def)

text \<open>
  The claim as stated, that every input of another column count raises, fails on the
  generator the constructor builds for three raw columns and no categorical column: it
  returns an input of two columns and an input of four columns as they are.
\<close>

theorem Tabular_forward_counterexample:
  "TabularDataEmbeddingGenerator_init row_weights stale 3 [] [] [] groups3 = Inr pass3
   \<and> n_cols two_columns = 2
   \<and> TabularDataEmbeddingGenerator_forward pass3 two_columns = Inr two_columns
   \<and> n_cols four_columns = 4
   \<and> TabularDataEmbeddingGenerator_forward pass3 four_columns = Inr four_columns"
  by (simp add: TabularDataEmbeddingGenerator_init_def TabularDataEmbeddingGenerator_init_in_def
      TabularDataEmbeddingGenerator_forward_def pass3_def two_columns_def four_columns_def)

text \<open>The same generator on the inputs of two and of four columns.\<close>

theorem Tabular_forward_witness:
  "TabularDataEmbeddingGenerator_init row_weights stale 3 [] [] [] groups3 = Inr pass3
   \<and> int (n_cols two_columns) \<noteq> 3 \<and> int (n_cols four_columns) \<noteq> 3
   \<and> post_embed_dim pass3 = 3
   \<and> TabularDataEmbeddingGenerator_forward pass3 two_columns = Inr two_columns
   \<and> TabularDataEmbeddingGenerator_forward pass3 four_columns = Inr four_columns"
  using Tabular_forward_no_column_check [of row_weights stale 3 "[]" groups3 pass3 two_columns]
    Tabular_forward_no_column_check [of row_weights stale 3 "[]" groups3 pass3 four_columns]
  by (simp add: TabularDataEmbeddingGenerator_init_def TabularDataEmbeddingGenerator_init_in_def
      pass3_def two_columns_def four_columns_def)

subsection \<open>The tabular embedding generator: construction with categorical columns\<close>

text \<open>
  Claim C3 says that a construction with at least one categorical column yields the
  post-embedding dimension \<open>input_dim + sum cat_emb_dims - length cat_emb_dims\<close> and the
  rebuilt grouping matrix. The constructor of the module as it is written raises
  \<^verbatim>\<open>NameError\<close> instead, at the statement that computes the dimension: here for three raw
  columns whose middle one is categorical with cardinality 5 and embedding width 3.
\<close>

theorem Tabular_init_NameError:
  "TabularDataEmbeddingGenerator_init row_weights stale 3 [5] [1] [3] groups3 = Inl NameError"
  by (simp add: TabularDataEmbeddingGenerator_init_def TabularDataEmbeddingGenerator_init_in_def
      blocks_np_def)

text \<open>
  The same holds for every construction with a categorical column: the name is read
  before anything else is computed.
\<close>

lemma Tabular_init_raises:
  "cat_dims \<noteq> [] \<or> cat_idxs \<noteq> [] \<Longrightarrow>
   TabularDataEmbeddingGenerator_init init_weight uninit input_dim cat_dims cat_idxs
     cat_emb_dims group_matrix = Inl NameError"
  by (auto simp: TabularDataEmbeddingGenerator_init_def TabularDataEmbeddingGenerator_init_in_def
      blocks_np_def)

text \<open>
  The statements after that one are what the claim describes. With the name \<^verbatim>\<open>np\<close> bound
  to numpy, the constructor builds, for the same arguments, the generator of
  post-embedding dimension 5 whose grouping matrix has the weight 6 of the categorical
  column as three entries 2.
\<close>

lemma Tabular_init_with_numpy_example:
  "TabularDataEmbeddingGenerator_init_in numpy_sum row_weights stale 3 [5] [1] [3] groups3
     = Inr \<lparr>skip_embedding = False, post_embed_dim = 5,
            embedding_group_matrix = \<lparr>n_rows = 1, n_cols = 5, cells = [[1, 2, 2, 2, 2]]\<rparr>,
            embeddings = [\<lparr>num_embeddings = 5, embedding_dim = 3, weight = row_weights 5 3\<rparr>],
            continuous_idx = [True, False, True]\<rparr>"
  by (simp add: TabularDataEmbeddingGenerator_init_in_def numpy_sum_def Embedding_init_def
      torch_ones_def row_set_def torch_empty_def groups3_def tensor2_get_def py_index_def
      row_fill_def slice_bound_def stale_def eval_nat_numeral upt_rec)

text \<open>
  In general: writing one entry and one slice of a row, the inner loop against the
  expansion of a row in the words of the specification, the flags of the continuous
  columns, and the outer loop.
\<close>

lemma row_set_in_range:
  "m < length row \<Longrightarrow> row_set row (int m) v = Inr (row[m := v])"
  by (simp add: row_set_def)

lemma row_fill_shape:
  assumes "0 \<le> d" and "m + nat d \<le> length row"
  shows "row_fill row (int m) (int m + d) v
           = take m row @ replicate (nat d) v @ drop (m + nat d) row"
proof (rule nth_equalityI)
  show "length (row_fill row (int m) (int m + d) v)
          = length (take m row @ replicate (nat d) v @ drop (m + nat d) row)"
    using assms by (simp add: row_fill_def)
next
  fix j
  assume "j < length (row_fill row (int m) (int m + d) v)"
  then have j: "j < length row" by (simp add: row_fill_def)
  have lo: "slice_bound (int (length row)) (int m) = int m"
    using assms by (simp add: slice_bound_def)
  have hi: "slice_bound (int (length row)) (int m + d) = int m + d"
    using assms by (simp add: slice_bound_def)
  have l: "row_fill row (int m) (int m + d) v ! j
             = (if int m \<le> int j \<and> int j < int m + d then v else row ! j)"
    using j by (simp add: row_fill_def lo hi)
  show "row_fill row (int m) (int m + d) v ! j
          = (take m row @ replicate (nat d) v @ drop (m + nat d) row) ! j"
  proof (cases "j < m")
    case True
    then show ?thesis using j l by (simp add: nth_append)
  next
    case False
    show ?thesis
    proof (cases "j < m + nat d")
      case True
      with \<open>\<not> j < m\<close> assms have a: "int m \<le> int j" "int j < int m + d" "j - m < nat d"
        by linarith+
      have "(take m row @ replicate (nat d) v @ drop (m + nat d) row) ! j = v"
        using \<open>\<not> j < m\<close> assms a(3) by (simp add: nth_append)
      then show ?thesis using l a by simp
    next
      case False
      with \<open>\<not> j < m\<close> assms have a: "\<not> int j < int m + d" "\<not> j - m < nat d"
        by linarith+
      have "m + nat d + (j - m - nat d) = j"
        using False by simp
      then have "(take m row @ replicate (nat d) v @ drop (m + nat d) row) ! j = row ! j"
        using \<open>\<not> j < m\<close> assms a(2) j by (simp add: nth_append)
      then show ?thesis using l a by simp
    qed
  qed
qed

lemma take_Suc_update: "m < length out \<Longrightarrow> take (Suc m) (out[m := w]) = take m out @ [w]"
  by (simp add: take_Suc_conv_app_nth)

lemma fill_group_row_expand:
  assumes "length ws = length flags"
    and "\<And>j. j < length flags \<Longrightarrow> tensor2_get gm g (i + j) = Inr (ws ! j)"
    and "length (filter Not flags) \<le> length ds"
    and "\<And>j. j < length ds \<Longrightarrow> py_index dims (int k + int j) = Inr (ds ! j)"
    and "\<forall>d\<in>set ds. 0 \<le> d"
    and "m + length (expand_row flags ds ws) \<le> length out"
  shows "fill_group_row gm g dims flags i (int m) (int k) out
           = Inr (take m out @ expand_row flags ds ws
                    @ drop (m + length (expand_row flags ds ws)) out)"
  using assms
proof (induction flags arbitrary: i m k out ws ds)
  case Nil
  then show ?case by simp
next
  case (Cons c flags)
  from Cons.prems(1) obtain w ws' where ws: "ws = w # ws'" and len: "length ws' = length flags"
    by (cases ws) auto
  have get0: "tensor2_get gm g i = Inr w"
    using Cons.prems(2) [of 0] by (simp add: ws)
  have get': "tensor2_get gm g (Suc i + j) = Inr (ws' ! j)" if "j < length flags" for j
    using Cons.prems(2) [of "Suc j"] that by (simp add: ws)
  show ?case
  proof (cases c)
    case True
    let ?E = "expand_row flags ds ws'"
    have e: "expand_row (c # flags) ds ws = w # ?E"
      using True by (simp add: ws)
    have m: "m < length out" and room: "Suc m + length ?E \<le> length out"
      using Cons.prems(6) by (simp_all add: e)
    have cnt: "length (filter Not flags) \<le> length ds"
      using Cons.prems(3) True by simp
    have ih: "fill_group_row gm g dims flags (Suc i) (int (Suc m)) (int k) (out[m := w])
        = Inr (take (Suc m) (out[m := w]) @ ?E @ drop (Suc m + length ?E) (out[m := w]))"
      using len get' cnt Cons.prems(4) Cons.prems(5) room
      by (intro Cons.IH) simp_all
    have "fill_group_row gm g dims (c # flags) i (int m) (int k) out
        = fill_group_row gm g dims flags (Suc i) (int (Suc m)) (int k) (out[m := w])"
      using True get0 m by (simp add: row_set_in_range add.commute [of "int m" 1])
    also have "\<dots> = Inr (take m out @ (w # ?E) @ drop (Suc m + length ?E) out)"
      unfolding ih using m by (simp add: take_Suc_update)
    finally show ?thesis by (simp add: e)
  next
    case False
    from Cons.prems(3) False obtain d ds' where ds: "ds = d # ds'"
      by (cases ds) auto
    let ?E = "expand_row flags ds' ws'"
    let ?v = "w / real_of_int d"
    have d: "0 \<le> d" using Cons.prems(5) by (simp add: ds)
    have e: "expand_row (c # flags) ds ws = replicate (nat d) ?v @ ?E"
      using False by (simp add: ws ds)
    have room: "m + nat d + length ?E \<le> length out"
      using Cons.prems(6) by (simp add: e)
    have py0: "py_index dims (int k) = Inr d"
      using Cons.prems(4) [of 0] by (simp add: ds)
    have py': "py_index dims (int (Suc k) + int j) = Inr (ds' ! j)" if "j < length ds'" for j
      using Cons.prems(4) [of "Suc j"] that by (simp add: ds algebra_simps)
    have cnt: "length (filter Not flags) \<le> length ds'"
      using Cons.prems(3) False by (simp add: ds)
    let ?out' = "take m out @ replicate (nat d) ?v @ drop (m + nat d) out"
    have fill: "row_fill out (int m) (int m + d) ?v = ?out'"
      using d room by (intro row_fill_shape) simp_all
    have lo: "length ?out' = length out"
      using room by simp
    have ih: "fill_group_row gm g dims flags (Suc i) (int (m + nat d)) (int (Suc k)) ?out'
        = Inr (take (m + nat d) ?out' @ ?E @ drop (m + nat d + length ?E) ?out')"
      using len get' cnt py' Cons.prems(5) room lo
      by (intro Cons.IH) (simp_all add: ds)
    have t: "take (m + nat d) ?out' = take m out @ replicate (nat d) ?v"
      using room by simp
    have dr: "drop (m + nat d + length ?E) ?out' = drop (m + nat d + length ?E) out"
      using room by (simp add: add.commute)
    have idx: "int m + d = int (m + nat d)" and cnt1: "int k + 1 = int (Suc k)"
      using d by simp_all
    have fill': "row_fill out (int m) (int (m + nat d)) ?v = ?out'"
      using fill by (simp only: idx)
    have "fill_group_row gm g dims (c # flags) i (int m) (int k) out
        = fill_group_row gm g dims flags (Suc i) (int (m + nat d)) (int (Suc k)) ?out'"
      using False get0 py0 by (simp only: fill_group_row.simps if_False sum.case idx cnt1 fill')
    also have "\<dots> = Inr (take m out @ (replicate (nat d) ?v @ ?E)
                          @ drop (m + nat d + length ?E) out)"
      by (simp only: ih t dr append_assoc)
    finally show ?thesis by (simp add: e add.assoc)
  qed
qed

lemma length_expand_row:
  "length ws = length flags \<Longrightarrow> length (filter Not flags) = length ds \<Longrightarrow>
   \<forall>d\<in>set ds. 0 \<le> d \<Longrightarrow>
   int (length (expand_row flags ds ws)) = int (length flags) + sum_list ds - int (length ds)"
proof (induction flags ds ws rule: expand_row.induct)
  case (1 flags widths w ws)
  then show ?case by simp
next
  case (2 flags n widths w ws)
  then show ?case by simp
qed auto

lemma sum_list_expand_row:
  "length ws = length flags \<Longrightarrow> length (filter Not flags) \<le> length ds \<Longrightarrow>
   \<forall>d\<in>set ds. 1 \<le> d \<Longrightarrow>
   sum_list (expand_row flags ds ws) = sum_list ws"
proof (induction flags ds ws rule: expand_row.induct)
  case (1 flags widths w ws)
  then show ?case by simp
next
  case (2 flags n widths w ws)
  then have "real (nat n) * (w / real_of_int n) = w" by simp
  with 2 show ?case by (simp add: sum_list_replicate)
qed auto

lemma index_put_zero_flags:
  "\<forall>i\<in>set idx. 0 \<le> i \<and> i < int (length flags) \<Longrightarrow>
   index_put_zero flags idx
     = Inr (map (\<lambda>j. flags ! j \<and> int j \<notin> set idx) [0 ..< length flags])"
proof (induction idx arbitrary: flags)
  case Nil
  then show ?case by (simp add: map_nth)
next
  case (Cons i idx)
  from Cons.prems have i: "0 \<le> i" "nat i < length flags" by auto
  then have s: "row_set flags i False = Inr (flags[nat i := False])"
    using row_set_in_range [of "nat i" flags False] by simp
  have "index_put_zero (flags[nat i := False]) idx
      = Inr (map (\<lambda>j. flags[nat i := False] ! j \<and> int j \<notin> set idx)
               [0 ..< length (flags[nat i := False])])"
    using Cons.prems by (intro Cons.IH) simp
  moreover have "map (\<lambda>j. flags[nat i := False] ! j \<and> int j \<notin> set idx) [0 ..< length flags]
      = map (\<lambda>j. flags ! j \<and> int j \<notin> set (i # idx)) [0 ..< length flags]"
    using i by (auto simp: nth_list_update)
  ultimately show ?case by (simp add: s)
qed

lemma count_cleared:
  assumes "distinct idx" and "\<forall>i\<in>set idx. 0 \<le> i \<and> i < int n"
  shows "length (filter Not (map (\<lambda>j. int j \<notin> set idx) [0 ..< n])) = length idx"
proof -
  have "length (filter Not (map (\<lambda>j. int j \<notin> set idx) [0 ..< n]))
      = length (filter (\<lambda>j. int j \<in> set idx) [0 ..< n])"
    by (simp add: filter_map comp_def)
  also have "\<dots> = card {j. j < n \<and> int j \<in> set idx}"
    unfolding length_filter_conv_card by (rule arg_cong [where f = card]) auto
  also have "{j. j < n \<and> int j \<in> set idx} = nat ` set idx"
  proof (intro set_eqI iffI)
    fix j
    assume "j \<in> {j. j < n \<and> int j \<in> set idx}"
    then have "int j \<in> set idx" and "j = nat (int j)" by simp_all
    then show "j \<in> nat ` set idx" by (rule rev_image_eqI)
  next
    fix j
    assume "j \<in> nat ` set idx"
    then obtain i where "i \<in> set idx" and "j = nat i" by auto
    with assms(2) show "j \<in> {j. j < n \<and> int j \<in> set idx}" by auto
  qed
  also have "card (nat ` set idx) = card (set idx)"
  proof (intro card_image inj_onI)
    fix a b
    assume "a \<in> set idx" and "b \<in> set idx" and "nat a = nat b"
    moreover from this assms(2) have "0 \<le> a" and "0 \<le> b" by auto
    ultimately show "a = b" by simp
  qed
  also have "\<dots> = length idx"
    using assms(1) by (rule distinct_card)
  finally show ?thesis .
qed

lemma fill_group_row_whole:
  assumes "g < n_rows gm" and "length flags = n_cols gm" and "length (cells gm ! g) = n_cols gm"
    and "length (filter Not flags) = length dims" and "\<forall>d\<in>set dims. 0 \<le> d"
    and "length out = length (expand_row flags dims (cells gm ! g))"
  shows "fill_group_row gm g dims flags 0 0 0 out = Inr (expand_row flags dims (cells gm ! g))"
proof -
  have get: "tensor2_get gm g (0 + j) = Inr (cells gm ! g ! j)" if "j < length flags" for j
    using that assms(1,2) by (simp add: tensor2_get_def)
  have py: "py_index dims (int 0 + int j) = Inr (dims ! j)" if "j < length dims" for j
    using that by (simp add: py_index_in_range)
  have "fill_group_row gm g dims flags 0 (int 0) (int 0) out
      = Inr (take 0 out @ expand_row flags dims (cells gm ! g)
               @ drop (0 + length (expand_row flags dims (cells gm ! g))) out)"
    using assms(2,3,4,5,6) get py by (intro fill_group_row_expand) simp_all
  then show ?thesis using assms(6) by simp
qed

lemma fill_groups_expand:
  assumes "well_shaped gm" and "length flags = n_cols gm"
    and "length (filter Not flags) = length dims" and "\<forall>d\<in>set dims. 0 \<le> d"
    and "\<forall>out\<in>set outs. int (length out) = int (length flags) + sum_list dims - int (length dims)"
    and "g + length outs \<le> n_rows gm"
  shows "fill_groups gm dims flags g outs
           = Inr (map (\<lambda>r. expand_row flags dims (cells gm ! r)) [g ..< g + length outs])"
  using assms(5,6)
proof (induction outs arbitrary: g)
  case Nil
  then show ?case by simp
next
  case (Cons out outs)
  have g: "g < n_rows gm" using Cons.prems(2) by simp
  then have row: "length (cells gm ! g) = n_cols gm"
    using assms(1) by (simp add: well_shaped_def list_all_length)
  have "int (length (expand_row flags dims (cells gm ! g)))
      = int (length flags) + sum_list dims - int (length dims)"
    using row assms(2,3,4) by (intro length_expand_row) simp_all
  then have len: "length out = length (expand_row flags dims (cells gm ! g))"
    using Cons.prems(1) by simp
  have one: "fill_group_row gm g dims flags 0 0 0 out = Inr (expand_row flags dims (cells gm ! g))"
    using g assms(2) row assms(3,4) len by (rule fill_group_row_whole)
  have rest: "fill_groups gm dims flags (Suc g) outs
      = Inr (map (\<lambda>r. expand_row flags dims (cells gm ! r)) [Suc g ..< Suc g + length outs])"
    using Cons.prems by (intro Cons.IH) simp_all
  have "[g ..< g + length (out # outs)] = g # [Suc g ..< Suc g + length outs]"
    by (simp add: upt_conv_Cons del: upt_Suc)
  then show ?case by (simp add: one rest del: upt_Suc)
qed

lemma Embedding_init_each_ok:
  "\<forall>p\<in>set ps. 0 \<le> fst p \<and> 0 \<le> snd p \<Longrightarrow>
   Embedding_init_each init_weight ps
     = Inr (map (\<lambda>p. \<lparr>num_embeddings = fst p, embedding_dim = snd p,
                     weight = init_weight (fst p) (snd p)\<rparr>) ps)"
  by (induction ps) (auto simp: Embedding_init_def)

lemma sum_list_ge_length: "\<forall>d\<in>set ds. 1 \<le> d \<Longrightarrow> int (length ds) \<le> sum_list ds"
  by (induction ds) auto

lemma map_nth_fun: "map (\<lambda>i. f (xs ! i)) [0 ..< length xs] = map f xs"
  by (rule nth_equalityI) simp_all

text \<open>
  With \<^verbatim>\<open>np\<close> bound to numpy and consistent metadata (a grouping matrix of \<open>input_dim\<close>
  columns, distinct categorical positions inside the columns, one embedding width of at
  least 1 per categorical position, no negative cardinality), the constructor returns a
  generator whose post-embedding dimension is
  \<open>input_dim + sum cat_emb_dims - length cat_emb_dims\<close>, whose grouping matrix has that
  many columns and is, row by row, the expansion of the supplied one, and every row keeps
  its total weight (over the reals).
\<close>

lemma Tabular_init_with_numpy:
  fixes input_dim :: int and cat_idxs cat_emb_dims cat_dims :: "int list"
    and group_matrix :: "real tensor2"
  assumes cat: "cat_dims \<noteq> [] \<or> cat_idxs \<noteq> []"
    and dim: "0 \<le> input_dim"
    and gm: "well_shaped group_matrix" "n_cols group_matrix = nat input_dim"
    and idx: "distinct cat_idxs" "\<forall>i\<in>set cat_idxs. 0 \<le> i \<and> i < input_dim"
    and widths: "length cat_emb_dims = length cat_idxs" "\<forall>d\<in>set cat_emb_dims. 1 \<le> d"
    and cards: "\<forall>c\<in>set cat_dims. 0 \<le> c"
  defines "flags \<equiv> map (\<lambda>j. int j \<notin> set cat_idxs) [0 ..< nat input_dim]"
  shows "\<exists>self.
           TabularDataEmbeddingGenerator_init_in numpy_sum init_weight uninit input_dim cat_dims
             cat_idxs cat_emb_dims group_matrix = Inr self
         \<and> \<not> skip_embedding self
         \<and> post_embed_dim self = input_dim + sum_list cat_emb_dims - int (length cat_emb_dims)
         \<and> continuous_idx self = flags
         \<and> n_rows (embedding_group_matrix self) = n_rows group_matrix
         \<and> int (n_cols (embedding_group_matrix self)) = post_embed_dim self
         \<and> cells (embedding_group_matrix self)
             = map (expand_row flags cat_emb_dims) (cells group_matrix)
         \<and> map sum_list (cells (embedding_group_matrix self))
             = map sum_list (cells group_matrix)
         \<and> well_shaped (embedding_group_matrix self)"
proof -
  let ?n = "nat input_dim"
  let ?D = "input_dim + sum_list cat_emb_dims - int (length cat_emb_dims)"
  let ?embs = "map (\<lambda>p. \<lparr>num_embeddings = fst p, embedding_dim = snd p,
                     weight = init_weight (fst p) (snd p)\<rparr>)
                 (zip cat_dims cat_emb_dims)"
  let ?blank = "map (\<lambda>g. map (uninit g) [0 ..< nat ?D]) [0 ..< n_rows group_matrix]"
  let ?filled = "map (expand_row flags cat_emb_dims) (cells group_matrix)"
  have nonneg: "\<forall>d\<in>set cat_emb_dims. 0 \<le> d"
    using widths(2) by auto
  have D: "0 \<le> ?D"
    using dim sum_list_ge_length [OF widths(2)] by simp
  have emb: "Embedding_init_each init_weight (zip cat_dims cat_emb_dims) = Inr ?embs"
  proof (rule Embedding_init_each_ok, rule ballI)
    fix p
    assume "p \<in> set (zip cat_dims cat_emb_dims)"
    then have "(fst p, snd p) \<in> set (zip cat_dims cat_emb_dims)" by simp
    then have "fst p \<in> set cat_dims" and "snd p \<in> set cat_emb_dims"
      by (rule set_zip_leftD, rule set_zip_rightD)
    with cards nonneg show "0 \<le> fst p \<and> 0 \<le> snd p" by simp
  qed
  have ones: "torch_ones input_dim = Inr (replicate ?n True)"
    using dim by (simp add: torch_ones_def)
  have "index_put_zero (replicate ?n True) cat_idxs
      = Inr (map (\<lambda>j. replicate ?n True ! j \<and> int j \<notin> set cat_idxs)
               [0 ..< length (replicate ?n True)])"
    using idx(2) dim by (intro index_put_zero_flags) simp
  then have put: "index_put_zero (replicate ?n True) cat_idxs = Inr flags"
    by (simp add: flags_def)
  have lf: "length flags = n_cols group_matrix"
    by (simp add: flags_def gm(2))
  have "\<forall>i\<in>set cat_idxs. 0 \<le> i \<and> i < int ?n"
    using idx(2) dim by simp
  with idx(1) have "length (filter Not flags) = length cat_idxs"
    unfolding flags_def by (rule count_cleared)
  then have cnt: "length (filter Not flags) = length cat_emb_dims"
    by (simp add: widths(1))
  have blank: "torch_empty uninit (n_rows group_matrix) ?D = Inr ?blank"
    using D by (simp add: torch_empty_def)
  have rows: "length (cells group_matrix) = n_rows group_matrix"
    using gm(1) by (simp add: well_shaped_def)
  have row_len: "length r = length flags" if "r \<in> set (cells group_matrix)" for r
    using that gm(1) lf by (simp add: well_shaped_def list_all_iff)
  have "fill_groups group_matrix cat_emb_dims flags 0 ?blank
      = Inr (map (\<lambda>r. expand_row flags cat_emb_dims (cells group_matrix ! r))
               [0 ..< 0 + length ?blank])"
    using gm(1) lf cnt nonneg D by (intro fill_groups_expand) (simp_all add: lf gm(2) dim)
  then have fill: "fill_groups group_matrix cat_emb_dims flags 0 ?blank = Inr ?filled"
    using map_nth_fun [of "expand_row flags cat_emb_dims" "cells group_matrix"]
    by (simp add: rows)
  have sums: "map sum_list ?filled = map sum_list (cells group_matrix)"
    using row_len cnt widths(2) by (simp add: sum_list_expand_row)
  have width: "length (expand_row flags cat_emb_dims r) = nat ?D"
    if "r \<in> set (cells group_matrix)" for r
  proof -
    have "int (length (expand_row flags cat_emb_dims r))
        = int (length flags) + sum_list cat_emb_dims - int (length cat_emb_dims)"
      using row_len [OF that] cnt nonneg by (intro length_expand_row) simp_all
    then show ?thesis using lf gm(2) dim by simp
  qed
  have shaped: "well_shaped \<lparr>n_rows = n_rows group_matrix, n_cols = nat ?D, cells = ?filled\<rparr>"
    using rows width by (simp add: well_shaped_def list_all_iff)
  have "TabularDataEmbeddingGenerator_init_in numpy_sum init_weight uninit input_dim cat_dims
          cat_idxs cat_emb_dims group_matrix
      = Inr \<lparr>skip_embedding = False, post_embed_dim = ?D,
             embedding_group_matrix =
               \<lparr>n_rows = n_rows group_matrix, n_cols = nat ?D, cells = ?filled\<rparr>,
             embeddings = ?embs, continuous_idx = flags\<rparr>"
    using cat
    by (simp add: TabularDataEmbeddingGenerator_init_in_def numpy_sum_def emb ones put blank fill
        Let_def)
  then show ?thesis
    using sums shaped D by simp
qed

end
